theory Spec2Isabelle
  imports Main "HOL-Library.Sublist" "HOL-Library.AList"
begin

section \<open>Requests and response writers\<close>

text \<open>
  An \<open>http.Header\<close> maps a key to the list of its values. \<open>Get\<close> returns the first
  value of the key, or the empty string when the key has none; \<open>Set\<close> replaces the
  values of the key by the single given one. The keys are used as the source writes them.
\<close>

type_synonym header = "string \<rightharpoonup> string list"

definition Header_Get :: "header \<Rightarrow> string \<Rightarrow> string" where
  "Header_Get h key = (case h key of Some (v # _) \<Rightarrow> v | _ \<Rightarrow> [])"

definition Header_Set :: "header \<Rightarrow> string \<Rightarrow> string \<Rightarrow> header" where
  "Header_Set h key v = h(key \<mapsto> [v])"

text \<open>
  A value stored in a request context is an \<open>interface{}\<close>: either a string or a value
  of some other dynamic type. A key without a value reads as \<open>nil\<close>, here \<open>None\<close>.
\<close>

datatype ctx_value = StringValue string | OtherValue nat

type_synonym ctx = "string \<rightharpoonup> ctx_value"

record request =
  Context :: ctx
  Header :: header

text \<open>
  The response writer: the header map, the status code once it has been written, and
  the body written so far. \<open>WriteHeader\<close> fixes the status code the first time it is
  called; \<open>Write\<close> fixes it to 200 when no status code has been written yet.
\<close>

record response =
  header :: header
  status :: "nat option"
  body :: string

definition WriteHeader :: "response \<Rightarrow> nat \<Rightarrow> response" where
  "WriteHeader w code = (case status w of None \<Rightarrow> w\<lparr>status := Some code\<rparr> | Some _ \<Rightarrow> w)"

definition Write :: "response \<Rightarrow> string \<Rightarrow> response" where
  "Write w b = (WriteHeader w 200)\<lparr>body := body (WriteHeader w 200) @ b\<rparr>"

definition StatusNotImplemented :: nat where
  "StatusNotImplemented = 501"

section \<open>version.go\<close>

definition contextKey :: string where
  "contextKey = ''api.version''"

definition NotFound :: string where
  "NotFound = contextKey @ ''.notfound''"

definition AcceptVersionHeaderKey :: string where
  "AcceptVersionHeaderKey = ''Accept-Version''"

definition AcceptHeaderKey :: string where
  "AcceptHeaderKey = ''Accept''"

definition AcceptHeaderVersionValue :: string where
  "AcceptHeaderVersionValue = ''version''"

definition versionNotFoundText :: string where
  "versionNotFoundText = ''version not found''"

text \<open>
  \<open>strings.Index s substr\<close>: the index of the first occurrence of \<open>substr\<close> in \<open>s\<close>,
  or \<open>-1\<close> when there is none.
\<close>

fun Index :: "string \<Rightarrow> string \<Rightarrow> int" where
  "Index [] substr = (if substr = [] then 0 else - 1)"
| "Index (c # s) substr =
     (if prefix substr (c # s) then 0
      else (let i = Index s substr in if i = - 1 then - 1 else i + 1))"

text \<open>
  \<open>GetVersion\<close>: the context value first (when it is a string), then the
  \<open>Accept-Version\<close> header, then the \<open>version\<close> token of the \<open>Accept\<close> header,
  then \<open>NotFound\<close>. The slices \<open>s[i:]\<close> and \<open>s[:i]\<close> are \<open>drop\<close> and \<open>take\<close>.
\<close>

definition GetVersion :: "request \<Rightarrow> string" where
  "GetVersion r =
    (case (case Context r contextKey of
             Some (StringValue version) \<Rightarrow> Some version
           | _ \<Rightarrow> None) of
       Some version \<Rightarrow> version
     | None \<Rightarrow>
        (let version = Header_Get (Header r) AcceptVersionHeaderKey in
         if version \<noteq> [] then version
         else
          (let acceptValue = Header_Get (Header r) AcceptHeaderKey;
               idx = Index acceptValue AcceptHeaderVersionValue in
           if acceptValue \<noteq> [] \<and> idx \<noteq> - 1 then
            (let rem = drop (nat idx) acceptValue;
                 startVersion = Index rem ''='' in
             if startVersion = - 1 \<or> int (length rem) < startVersion + 1 then NotFound
             else
              (let rem2 = drop (nat (startVersion + 1)) rem;
                   end1 = Index rem2 '' '';
                   end2 = (if end1 = - 1 then Index rem2 '';'' else end1);
                   end3 = (if end2 = - 1 then int (length rem2) else end2);
                   version = take (nat end3) rem2 in
               if version \<noteq> [] then version else NotFound))
           else NotFound)))"

definition WithVersion :: "ctx \<Rightarrow> string \<Rightarrow> ctx" where
  "WithVersion ctx version = ctx(contextKey \<mapsto> StringValue version)"

section \<open>Handlers\<close>

text \<open>
  An \<open>http.Handler\<close> is an interface value: it is \<open>nil\<close>, here \<open>NilHandler\<close>, or it
  holds an implementation, given by what its \<open>ServeHTTP w r\<close> does to the response
  writer, as a function adapted by \<open>http.HandlerFunc\<close> is. The result \<open>None\<close> is a call
  that panics, as the call of \<open>ServeHTTP\<close> on \<open>nil\<close> does. The body of a handler built by
  this package is a straight line of header assignments and calls of other handlers: it
  is written as the list of these actions, and \<open>run\<close> performs them in order.
\<close>

datatype handler = NilHandler | HandlerFunc "response \<Rightarrow> request \<Rightarrow> response option"

fun Handler_ServeHTTP :: "handler \<Rightarrow> response \<Rightarrow> request \<Rightarrow> response option" where
  "Handler_ServeHTTP NilHandler w r = None"
| "Handler_ServeHTTP (HandlerFunc f) w r = f w r"

datatype action = HeaderSet string string | ServeHTTP handler

fun perform :: "action \<Rightarrow> response \<Rightarrow> request \<Rightarrow> response option" where
  "perform (HeaderSet key v) w r = Some (w\<lparr>header := Header_Set (header w) key v\<rparr>)"
| "perform (ServeHTTP h) w r = Handler_ServeHTTP h w r"

fun run :: "action list \<Rightarrow> response \<Rightarrow> request \<Rightarrow> response option" where
  "run [] w r = Some w"
| "run (a # as) w r = (case perform a w r of None \<Rightarrow> None | Some w' \<Rightarrow> run as w' r)"

fun is_ServeHTTP :: "action \<Rightarrow> bool" where
  "is_ServeHTTP (ServeHTTP h) = True"
| "is_ServeHTTP (HeaderSet key v) = False"

fun is_HeaderSet :: "string \<Rightarrow> action \<Rightarrow> bool" where
  "is_HeaderSet k (HeaderSet key v) = (key = k)"
| "is_HeaderSet k (ServeHTTP h) = False"

definition NotFoundHandler :: handler where
  "NotFoundHandler =
    HandlerFunc (\<lambda>w r. Some (Write (WriteHeader w StatusNotImplemented) versionNotFoundText))"

text \<open>
  A \<open>Map\<close> is a Go map from version constraint to handler. It is given by its entries
  in the order in which a \<open>range\<close> statement visits them, an order that Go leaves
  unspecified; \<open>m[k]\<close> reads as \<open>nil\<close> when \<open>k\<close> has no entry, and
  \<open>m[k] = h\<close> replaces the entry of \<open>k\<close> or adds one.
\<close>

type_synonym Map = "(string \<times> handler) list"

definition Map_get :: "Map \<Rightarrow> string \<Rightarrow> handler" where
  "Map_get m k = (case map_of m k of Some h \<Rightarrow> h | None \<Rightarrow> NilHandler)"

definition Map_set :: "Map \<Rightarrow> string \<Rightarrow> handler \<Rightarrow> Map" where
  "Map_set m k h = AList.update k h m"

section \<open>The version library\<close>

text \<open>
  The package github.com/hashicorp/go-version is an external dependency; the program uses
  four of its operations. \<open>NewVersion\<close> and \<open>NewConstraint\<close> return \<open>None\<close> where
  the library returns an error.
\<close>

record ('v, 'c) version_lib =
  NewVersion :: "string \<Rightarrow> 'v option"
  NewConstraint :: "string \<Rightarrow> 'c option"
  Check :: "'c \<Rightarrow> 'v \<Rightarrow> bool"
  Version_String :: "'v \<Rightarrow> string"

section \<open>versioning.go\<close>

definition If_version :: "('v, 'c) version_lib \<Rightarrow> string \<Rightarrow> string \<Rightarrow> bool" where
  "If_version L v is =
    (case NewVersion L v of
       None \<Rightarrow> False
     | Some ver \<Rightarrow>
        (case NewConstraint L is of
           None \<Rightarrow> False
         | Some constraints \<Rightarrow> Check L constraints ver))"

definition Match :: "('v, 'c) version_lib \<Rightarrow> request \<Rightarrow> string \<Rightarrow> bool" where
  "Match L r expectedVersion = If_version L (GetVersion r) expectedVersion"

record 'c constraintsHandler =
  constraints :: 'c
  handler :: handler

datatype error = Panic string

text \<open>
  \<open>buildConstraints\<close>: the loop over the entries of the map, then the default for the
  not found handler. The result \<open>notfoundHandler\<close> is \<open>nil\<close> before the loop, the loop
  assigns to it the handler of a sentinel entry, and the test after the loop replaces
  \<open>nil\<close> by \<open>NotFoundHandler\<close>. \<open>panic(err)\<close> is \<open>Inl (Panic v)\<close>, \<open>v\<close> the key that
  did not parse.
\<close>

fun buildConstraints_loop ::
  "('v, 'c) version_lib \<Rightarrow> Map \<Rightarrow> 'c constraintsHandler list \<Rightarrow> handler
    \<Rightarrow> error + ('c constraintsHandler list \<times> handler)" where
  "buildConstraints_loop L [] constraintsHandlers notfoundHandler =
     Inr (constraintsHandlers, notfoundHandler)"
| "buildConstraints_loop L ((v, h) # rest) constraintsHandlers notfoundHandler =
     (if v = NotFound then buildConstraints_loop L rest constraintsHandlers h
      else
       (case NewConstraint L v of
          None \<Rightarrow> Inl (Panic v)
        | Some cs \<Rightarrow>
            buildConstraints_loop L rest
              (constraintsHandlers @ [\<lparr>constraints = cs, handler = h\<rparr>]) notfoundHandler))"

definition buildConstraints ::
  "('v, 'c) version_lib \<Rightarrow> Map \<Rightarrow> error + ('c constraintsHandler list \<times> handler)" where
  "buildConstraints L versionsHandler =
    (case buildConstraints_loop L versionsHandler [] NilHandler of
       Inl e \<Rightarrow> Inl e
     | Inr (constraintsHandlers, notfoundHandler) \<Rightarrow>
         Inr (constraintsHandlers,
              (case notfoundHandler of
                 NilHandler \<Rightarrow> NotFoundHandler
               | HandlerFunc f \<Rightarrow> notfoundHandler)))"

text \<open>
  The loop of the matcher over the stored pairs: the actions of the first pair whose
  constraints the version satisfies (the loop returns there), \<open>None\<close> when the loop ends
  without a match.
\<close>

fun Matcher_loop ::
  "('v, 'c) version_lib \<Rightarrow> 'c constraintsHandler list \<Rightarrow> 'v \<Rightarrow> action list option" where
  "Matcher_loop L [] ver = None"
| "Matcher_loop L (ch # rest) ver =
     (if Check L (constraints ch) ver
      then Some [HeaderSet ''X-API-Version'' (Version_String L ver), ServeHTTP (handler ch)]
      else Matcher_loop L rest ver)"

definition Matcher_body ::
  "('v, 'c) version_lib \<Rightarrow> 'c constraintsHandler list \<Rightarrow> handler \<Rightarrow> request \<Rightarrow> action list" where
  "Matcher_body L constraintsHandlers notFoundHandler r =
    (let versionString = GetVersion r in
     if versionString = NotFound then [ServeHTTP notFoundHandler]
     else
      (case NewVersion L versionString of
         None \<Rightarrow> [ServeHTTP notFoundHandler]
       | Some ver \<Rightarrow>
          (case Matcher_loop L constraintsHandlers ver of
             Some actions \<Rightarrow> actions
           | None \<Rightarrow> [ServeHTTP notFoundHandler])))"

definition NewMatcher :: "('v, 'c) version_lib \<Rightarrow> Map \<Rightarrow> error + handler" where
  "NewMatcher L versions =
    (case buildConstraints L versions of
       Inl e \<Rightarrow> Inl e
     | Inr (constraintsHandlers, notFoundHandler) \<Rightarrow>
         Inr (HandlerFunc (\<lambda>w r. run (Matcher_body L constraintsHandlers notFoundHandler r) w r)))"

section \<open>deprecation.go\<close>

text \<open>
  A \<open>time.Time\<close> is an instant: seconds and nanoseconds since the zero time instant.
  \<open>IsZero\<close> holds of the zero instant only. \<open>time.Format\<close> belongs to the standard
  library; the functions that call it take it as the parameter \<open>Format\<close>.
\<close>

record Time =
  sec :: int
  nsec :: int

definition IsZero :: "Time \<Rightarrow> bool" where
  "IsZero t = (sec t = 0 \<and> nsec t = 0)"

definition HeaderTimeFormat :: string where
  "HeaderTimeFormat = ''Mon, 02 Jan 2006 15:04:05 GMT''"

record DeprecationOptions =
  WarnMessage :: string
  DeprecationDate :: Time
  DeprecationInfo :: string

definition ShouldHandle :: "DeprecationOptions \<Rightarrow> bool" where
  "ShouldHandle opts =
    (WarnMessage opts \<noteq> [] \<or> \<not> IsZero (DeprecationDate opts) \<or> DeprecationInfo opts \<noteq> [])"

definition DefaultDeprecationOptions :: DeprecationOptions where
  "DefaultDeprecationOptions =
    \<lparr>WarnMessage = ''WARNING! You are using a deprecated version of this API.'',
     DeprecationDate = \<lparr>sec = 0, nsec = 0\<rparr>,
     DeprecationInfo = []\<rparr>"

text \<open>The body of the handler that \<open>Deprecated\<close> returns, for the options it holds.\<close>

definition Deprecated_body ::
  "(Time \<Rightarrow> string \<Rightarrow> string) \<Rightarrow> handler \<Rightarrow> DeprecationOptions \<Rightarrow> action list" where
  "Deprecated_body Format h options =
    [HeaderSet ''X-API-Warn'' (WarnMessage options)]
    @ (if \<not> IsZero (DeprecationDate options)
       then [HeaderSet ''X-API-Deprecation-Date'' (Format (DeprecationDate options) HeaderTimeFormat)]
       else [])
    @ (if DeprecationInfo options \<noteq> []
       then [HeaderSet ''X-API-Deprecation-Info'' (DeprecationInfo options)]
       else [])
    @ [ServeHTTP h]"

definition Deprecated_options :: "DeprecationOptions \<Rightarrow> DeprecationOptions" where
  "Deprecated_options options =
    (if WarnMessage options = []
     then options\<lparr>WarnMessage := WarnMessage DefaultDeprecationOptions\<rparr>
     else options)"

definition Deprecated ::
  "(Time \<Rightarrow> string \<Rightarrow> string) \<Rightarrow> handler \<Rightarrow> DeprecationOptions \<Rightarrow> handler" where
  "Deprecated Format h options =
    HandlerFunc (\<lambda>w r. run (Deprecated_body Format h (Deprecated_options options)) w r)"

section \<open>group.go\<close>

text \<open>
  A Go map is a reference: two variables can hold the same \<open>Map\<close>, and an assignment
  through one is seen through the other. The store holds the \<open>Map\<close> objects by address;
  \<open>fresh\<close> is the next address that an allocation takes. The \<open>routes\<close> of a group give,
  for each path in the order a \<open>range\<close> statement visits them, the address of its \<open>Map\<close>.
  A method of \<open>*Group\<close> takes the group and the store and returns both.
\<close>

type_synonym ref = nat

record store =
  maps :: "ref \<Rightarrow> Map"
  fresh :: ref

record Group =
  version :: string
  routes :: "(string \<times> ref) list"
  deprecation :: DeprecationOptions

definition NewGroup :: "string \<Rightarrow> Group" where
  "NewGroup v =
    \<lparr>version = v, routes = [],
     deprecation = \<lparr>WarnMessage = [], DeprecationDate = \<lparr>sec = 0, nsec = 0\<rparr>, DeprecationInfo = []\<rparr>\<rparr>"

fun Group_Deprecated_loop ::
  "(Time \<Rightarrow> string \<Rightarrow> string) \<Rightarrow> string \<Rightarrow> DeprecationOptions \<Rightarrow> (string \<times> ref) list
    \<Rightarrow> store \<Rightarrow> store" where
  "Group_Deprecated_loop Format v options [] S = S"
| "Group_Deprecated_loop Format v options ((path, versions) # rest) S =
     Group_Deprecated_loop Format v options rest
       (S\<lparr>maps := (maps S)
           (versions := Map_set (maps S versions) v
                          (Deprecated Format (Map_get (maps S versions) v) options))\<rparr>)"

definition Group_Deprecated ::
  "(Time \<Rightarrow> string \<Rightarrow> string) \<Rightarrow> DeprecationOptions \<Rightarrow> Group \<times> store \<Rightarrow> Group \<times> store" where
  "Group_Deprecated Format options gS =
    (case gS of (g, S) \<Rightarrow>
      (g\<lparr>deprecation := options\<rparr>,
       Group_Deprecated_loop Format (version g) options (routes g) S))"

definition addVRoute :: "string \<Rightarrow> handler \<Rightarrow> Group \<times> store \<Rightarrow> Group \<times> store" where
  "addVRoute path h gS =
    (case gS of (g, S) \<Rightarrow>
      (case map_of (routes g) path of
         Some versions \<Rightarrow> (g, S)
       | None \<Rightarrow>
          (g\<lparr>routes := routes g @ [(path, fresh S)]\<rparr>,
           S\<lparr>maps := (maps S)(fresh S := [(version g, h)]), fresh := Suc (fresh S)\<rparr>)))"

definition Group_Handle ::
  "(Time \<Rightarrow> string \<Rightarrow> string) \<Rightarrow> string \<Rightarrow> handler \<Rightarrow> Group \<times> store \<Rightarrow> Group \<times> store" where
  "Group_Handle Format path h gS =
    (case gS of (g, S) \<Rightarrow>
      addVRoute path
        (if ShouldHandle (deprecation g) then Deprecated Format h (deprecation g) else h)
        (g, S))"

text \<open>
  \<open>RegisterGroups\<close>. \<open>total\<close> (here \<open>tot\<close>) maps a path to a \<open>Map\<close>, that is to an address of the
  store: \<open>total[path] = versions\<close> stores the address that the group holds. The first
  loop merges the groups, the second one builds a matcher for each path of \<open>total\<close>.
  A mux is given by the list of the registrations it has received, \<open>None\<close> being the nil
  mux. The result is the returned \<open>routes\<close>, with the mux and the store after the call.
\<close>

fun RegisterGroups_routes ::
  "string \<Rightarrow> (string \<times> ref) list \<Rightarrow> (string \<times> ref) list \<times> store
    \<Rightarrow> (string \<times> ref) list \<times> store" where
  "RegisterGroups_routes v [] tS = tS"
| "RegisterGroups_routes v ((path, versions) # rest) tS =
     (case tS of (tot, S) \<Rightarrow>
       (case map_of tot path of
          Some t \<Rightarrow>
            RegisterGroups_routes v rest
              (tot, S\<lparr>maps := (maps S)(t := Map_set (maps S t) v (Map_get (maps S versions) v))\<rparr>)
        | None \<Rightarrow> RegisterGroups_routes v rest (tot @ [(path, versions)], S)))"

fun RegisterGroups_merge ::
  "Group list \<Rightarrow> (string \<times> ref) list \<times> store \<Rightarrow> (string \<times> ref) list \<times> store" where
  "RegisterGroups_merge [] tS = tS"
| "RegisterGroups_merge (g # groups) tS =
     RegisterGroups_merge groups (RegisterGroups_routes (version g) (routes g) tS)"

type_synonym mux = "(string \<times> handler) list option"

fun RegisterGroups_build ::
  "('v, 'c) version_lib \<Rightarrow> handler \<Rightarrow> (string \<times> ref) list
    \<Rightarrow> mux \<times> (string \<times> handler) list \<times> store
    \<Rightarrow> error + (mux \<times> (string \<times> handler) list \<times> store)" where
  "RegisterGroups_build L notFoundHandler [] acc = Inr acc"
| "RegisterGroups_build L notFoundHandler ((path, versions) # rest) acc =
     (case acc of (mux, rts, S) \<Rightarrow>
       (let S' = (case notFoundHandler of
                    NilHandler \<Rightarrow> S
                  | HandlerFunc f \<Rightarrow>
                      S\<lparr>maps := (maps S)
                          (versions := Map_set (maps S versions) NotFound notFoundHandler)\<rparr>)
        in case NewMatcher L (maps S' versions) of
             Inl e \<Rightarrow> Inl e
           | Inr matcher \<Rightarrow>
               RegisterGroups_build L notFoundHandler rest
                 (map_option (\<lambda>m. m @ [(path, matcher)]) mux,
                  AList.update path matcher rts, S')))"

definition RegisterGroups ::
  "('v, 'c) version_lib \<Rightarrow> mux \<Rightarrow> handler \<Rightarrow> Group list \<Rightarrow> store
    \<Rightarrow> error + (mux \<times> (string \<times> handler) list \<times> store)" where
  "RegisterGroups L mux notFoundHandler groups S =
    (case RegisterGroups_merge groups ([], S) of
       (tot, S1) \<Rightarrow> RegisterGroups_build L notFoundHandler tot (mux, [], S1))"

section \<open>An instance of the version library\<close>

text \<open>
  The behaviour of go-version on the versions that are numeric segments separated by
  dots, with an optional leading \<open>v\<close>, and on the constraints that are comparisons
  separated by commas, with the operators \<open>=\<close>, \<open>!=\<close>, \<open>>\<close>, \<open><\<close>, \<open>>=\<close>,
  \<open><=\<close> (no operator is \<open>=\<close>). \<open>NewVersion\<close> pads the segments with zeros up to
  three of them, two versions compare segment by segment, a missing segment counting as
  zero, and \<open>String\<close> joins the segments of the parsed version by dots. Versions with a
  pre-release or metadata part and the operator \<open>~>\<close> are outside this instance: it
  rejects them. The theorems about the program hold for every library; the instance serves
  to run the program on concrete requests.
\<close>

definition is_digit :: "char \<Rightarrow> bool" where
  "is_digit c = (c \<in> set ''0123456789'')"

definition digit_value :: "char \<Rightarrow> nat" where
  "digit_value c = of_char c - 48"

definition atoi :: "string \<Rightarrow> nat" where
  "atoi s = foldl (\<lambda>n c. 10 * n + digit_value c) 0 s"

fun itoa :: "nat \<Rightarrow> string" where
  "itoa n =
     (if n < 10 then [''0123456789'' ! n]
      else itoa (n div 10) @ [''0123456789'' ! (n mod 10)])"

declare itoa.simps [simp del]

fun Split :: "char \<Rightarrow> string \<Rightarrow> string list" where
  "Split sep [] = [[]]"
| "Split sep (c # s) =
     (if c = sep then [] # Split sep s
      else (case Split sep s of [] \<Rightarrow> [[c]] | x # xs \<Rightarrow> (c # x) # xs))"

fun Join :: "string list \<Rightarrow> string \<Rightarrow> string" where
  "Join [] sep = []"
| "Join [x] sep = x"
| "Join (x # y # xs) sep = x @ sep @ Join (y # xs) sep"

definition is_space :: "char \<Rightarrow> bool" where
  "is_space c = (c \<in> set [CHR '' '', CHR 0x09, CHR 0x0A, CHR 0x0C, CHR 0x0D])"

definition trim_left :: "string \<Rightarrow> string" where
  "trim_left s = dropWhile is_space s"

definition trim :: "string \<Rightarrow> string" where
  "trim s = rev (dropWhile is_space (rev (dropWhile is_space s)))"

definition segment_ok :: "string \<Rightarrow> bool" where
  "segment_ok s = (s \<noteq> [] \<and> list_all is_digit s \<and> atoi s < 2 ^ 63)"

definition go_NewVersion :: "string \<Rightarrow> nat list option" where
  "go_NewVersion v =
    (let s = (case v of [] \<Rightarrow> v | c # t \<Rightarrow> if c = CHR ''v'' then t else v);
         segmentsStr = Split CHR ''.'' s
     in if list_all segment_ok segmentsStr
        then Some (map atoi segmentsStr @ replicate (3 - length segmentsStr) 0)
        else None)"

definition go_String :: "nat list \<Rightarrow> string" where
  "go_String segments = Join (map itoa segments) ''.''"

fun Compare :: "nat list \<Rightarrow> nat list \<Rightarrow> int" where
  "Compare [] [] = 0"
| "Compare [] (y # ys) = (if list_all (\<lambda>n. n = 0) (y # ys) then 0 else - 1)"
| "Compare (x # xs) [] = (if list_all (\<lambda>n. n = 0) (x # xs) then 0 else 1)"
| "Compare (x # xs) (y # ys) = (if x = y then Compare xs ys else if x < y then - 1 else 1)"

datatype operator = Equal | NotEqual | GreaterThan | LessThan | GreaterThanEqual | LessThanEqual

definition operator_of :: "string \<Rightarrow> operator option" where
  "operator_of s =
    (if s = [] \<or> s = ''='' then Some Equal
     else if s = ''!='' then Some NotEqual
     else if s = ''>'' then Some GreaterThan
     else if s = ''<'' then Some LessThan
     else if s = ''>='' then Some GreaterThanEqual
     else if s = ''<='' then Some LessThanEqual
     else None)"

definition is_operator_char :: "char \<Rightarrow> bool" where
  "is_operator_char c = (c \<in> set ''=!<>~'')"

definition parseSingle :: "string \<Rightarrow> (operator \<times> nat list) option" where
  "parseSingle v =
    (let s = trim v in
     case operator_of (takeWhile is_operator_char s) of
       None \<Rightarrow> None
     | Some f \<Rightarrow>
        (case go_NewVersion (trim_left (dropWhile is_operator_char s)) of
           None \<Rightarrow> None
         | Some check \<Rightarrow> Some (f, check)))"

fun parse_all :: "string list \<Rightarrow> (operator \<times> nat list) list option" where
  "parse_all [] = Some []"
| "parse_all (single # vs) =
     (case parseSingle single of
        None \<Rightarrow> None
      | Some c \<Rightarrow> (case parse_all vs of None \<Rightarrow> None | Some cs \<Rightarrow> Some (c # cs)))"

definition go_NewConstraint :: "string \<Rightarrow> (operator \<times> nat list) list option" where
  "go_NewConstraint v = parse_all (Split CHR '','' v)"

fun check_single :: "operator \<times> nat list \<Rightarrow> nat list \<Rightarrow> bool" where
  "check_single (Equal, c) v = (Compare v c = 0)"
| "check_single (NotEqual, c) v = (Compare v c \<noteq> 0)"
| "check_single (GreaterThan, c) v = (Compare v c = 1)"
| "check_single (LessThan, c) v = (Compare v c = - 1)"
| "check_single (GreaterThanEqual, c) v = (Compare v c \<ge> 0)"
| "check_single (LessThanEqual, c) v = (Compare v c \<le> 0)"

definition go_Check :: "(operator \<times> nat list) list \<Rightarrow> nat list \<Rightarrow> bool" where
  "go_Check cs v = list_all (\<lambda>c. check_single c v) cs"

definition go_version :: "(nat list, (operator \<times> nat list) list) version_lib" where
  "go_version =
    \<lparr>NewVersion = go_NewVersion, NewConstraint = go_NewConstraint,
     Check = go_Check, Version_String = go_String\<rparr>"

section \<open>Handlers of the tests\<close>

text \<open>\<open>sendHandler\<close> of the test file: a handler that writes \<open>contents\<close>.\<close>

definition sendHandler :: "string \<Rightarrow> handler" where
  "sendHandler contents = HandlerFunc (\<lambda>w r. Some (Write w contents))"

definition withHeader :: "string \<Rightarrow> string \<Rightarrow> request" where
  "withHeader key v = \<lparr>Context = Map.empty, Header = [key \<mapsto> [v]]\<rparr>"

section \<open>The token of the Accept header\<close>

text \<open>
  The text after the first occurrence of \<open>sub\<close> in \<open>s\<close>, if \<open>sub\<close> occurs.
\<close>

fun after_first :: "string \<Rightarrow> string \<Rightarrow> string option" where
  "after_first sub [] = (if sub = [] then Some [] else None)"
| "after_first sub (c # s) =
     (if prefix sub (c # s) then Some (drop (length sub) (c # s)) else after_first sub s)"

text \<open>
  The value that a text holds: the text up to its first space or, without a space, up to
  its first semicolon or, without both, up to its end; the sentinel when this is empty.
\<close>

definition token_value :: "string \<Rightarrow> string" where
  "token_value after =
    (let v = (if CHR '' '' \<in> set after then takeWhile (\<lambda>c. c \<noteq> CHR '' '') after
              else takeWhile (\<lambda>c. c \<noteq> CHR '';'') after)
     in if v = [] then NotFound else v)"

text \<open>
  What \<open>GetVersion\<close> computes from the text \<open>post\<close> that follows the substring
  \<open>version\<close>, written with the functions on lists: the value of the text after the
  first \<open>=\<close> of \<open>post\<close>, wherever that \<open>=\<close> stands; the sentinel when \<open>post\<close> has
  no \<open>=\<close>. The lemma \<open>GetVersion_fallthrough\<close> proves that this is the result of the
  source.
\<close>

definition accept_value :: "string \<Rightarrow> string" where
  "accept_value post =
    (if CHR ''='' \<notin> set post then NotFound
     else token_value (tl (dropWhile (\<lambda>c. c \<noteq> CHR ''='') post)))"

definition accept_version :: "string \<Rightarrow> string" where
  "accept_version acceptValue =
    (case after_first AcceptHeaderVersionValue acceptValue of
       None \<Rightarrow> NotFound
     | Some post \<Rightarrow> accept_value post)"

text \<open>
  The specification words the same step as: take everything after the \<open>=\<close> immediately
  following the substring; if no \<open>=\<close> exists or nothing follows it, the result is the
  sentinel. In \<open>spec_accept_value\<close> the \<open>=\<close> is the character that follows the
  substring at once; when another character stands there, no such \<open>=\<close> exists.
\<close>

definition spec_accept_value :: "string \<Rightarrow> string" where
  "spec_accept_value post =
    (case post of
       [] \<Rightarrow> NotFound
     | c # after \<Rightarrow> if c = CHR ''='' then token_value after else NotFound)"

definition spec_accept_version :: "string \<Rightarrow> string" where
  "spec_accept_version acceptValue =
    (case after_first AcceptHeaderVersionValue acceptValue of
       None \<Rightarrow> NotFound
     | Some post \<Rightarrow> spec_accept_value post)"

section \<open>Evaluating the instance\<close>

lemmas go_defs = go_version_def go_NewVersion_def go_NewConstraint_def go_Check_def go_String_def
  parseSingle_def operator_of_def is_operator_char_def trim_def trim_left_def is_space_def
  segment_ok_def atoi_def digit_value_def is_digit_def Let_def

lemma replicate_zeros: "replicate 2 (0::nat) = [0, 0]" "replicate (Suc 0) (0::nat) = [0]"
  by (simp_all add: numeral_2_eq_2)

lemma itoa_digits:
  "itoa 0 = ''0''" "itoa (Suc 0) = ''1''" "itoa 1 = ''1''" "itoa 2 = ''2''" "itoa 5 = ''5''"
  by (simp_all add: itoa.simps)

lemma go_NewVersion_1_0: "go_NewVersion ''1.0'' = Some [1, 0, 0]"
  by (simp add: go_defs replicate_zeros)

lemma go_NewVersion_x: "go_NewVersion ''x'' = None"
  by (simp add: go_defs)

lemma go_NewConstraint_ge1: "go_NewConstraint ''>=1'' = Some [(GreaterThanEqual, [1, 0, 0])]"
  by (simp add: go_defs replicate_zeros)

lemma go_NewConstraint_bad: "go_NewConstraint ''>> 1'' = None"
  by (simp add: go_defs)

section \<open>GetVersion\<close>

lemma Index_ge: "Index s sub = - 1 \<or> 0 \<le> Index s sub"
  by (induction s) (auto simp: Let_def)

lemma Index_after_first:
  "sub \<noteq> [] \<Longrightarrow>
   (Index s sub = - 1 \<longrightarrow> after_first sub s = None) \<and>
   (Index s sub \<noteq> - 1 \<longrightarrow>
      prefix sub (drop (nat (Index s sub)) s) \<and>
      after_first sub s = Some (drop (length sub) (drop (nat (Index s sub)) s)))"
proof (induction s)
  case Nil
  then show ?case by simp
next
  case (Cons c s)
  show ?case
  proof (cases "prefix sub (c # s)")
    case True
    then show ?thesis by simp
  next
    case False
    have ge: "Index s sub = - 1 \<or> 0 \<le> Index s sub" by (rule Index_ge)
    show ?thesis
    proof (cases "Index s sub = - 1")
      case True
      with False Cons show ?thesis by (simp add: Let_def)
    next
      case neq: False
      with ge have pos: "0 \<le> Index s sub" by simp
      then have "nat (Index s sub + 1) = Suc (nat (Index s sub))" by simp
      with False neq Cons pos show ?thesis by (simp add: Let_def)
    qed
  qed
qed

lemma Index_char:
  "(c \<notin> set s \<longrightarrow> Index s [c] = - 1) \<and>
   (c \<in> set s \<longrightarrow> Index s [c] = int (length (takeWhile (\<lambda>x. x \<noteq> c) s)))"
  by (induction s) (auto simp: Let_def)


lemma Index_char_notin: "c \<notin> set s \<Longrightarrow> Index s [c] = - 1"
  using Index_char by blast

lemma Index_char_in: "c \<in> set s \<Longrightarrow> Index s [c] = int (length (takeWhile (\<lambda>x. x \<noteq> c) s))"
  using Index_char by blast

lemma take_takeWhile: "take (length (takeWhile P xs)) xs = takeWhile P xs"
  by (induction xs) auto

lemma length_takeWhile_mem: "c \<in> set xs \<Longrightarrow> length (takeWhile (\<lambda>x. x \<noteq> c) xs) < length xs"
  by (induction xs) auto

lemma takeWhile_notin: "c \<notin> set xs \<Longrightarrow> takeWhile (\<lambda>x. x \<noteq> c) xs = xs"
  by (induction xs) auto

lemma take_value:
  "(let end1 = Index x '' '';
        end2 = (if end1 = - 1 then Index x '';'' else end1);
        end3 = (if end2 = - 1 then int (length x) else end2)
    in take (nat end3) x) =
   (if CHR '' '' \<in> set x then takeWhile (\<lambda>c. c \<noteq> CHR '' '') x
    else takeWhile (\<lambda>c. c \<noteq> CHR '';'') x)"
proof (cases "CHR '' '' \<in> set x")
  case True
  then show ?thesis
    by (simp add: Index_char_in Let_def take_takeWhile)
next
  case False
  show ?thesis
  proof (cases "CHR '';'' \<in> set x")
    case True
    with False show ?thesis
      by (simp add: Index_char_in Index_char_notin Let_def take_takeWhile)
  next
    case nosemi: False
    with False show ?thesis
      by (simp add: Index_char_notin Let_def takeWhile_notin)
  qed
qed

lemma rem_value:
  assumes "rem = ''version'' @ post"
  shows "(let startVersion = Index rem ''='' in
          if startVersion = - 1 \<or> int (length rem) < startVersion + 1 then NotFound
          else
           (let rem2 = drop (nat (startVersion + 1)) rem;
                end1 = Index rem2 '' '';
                end2 = (if end1 = - 1 then Index rem2 '';'' else end1);
                end3 = (if end2 = - 1 then int (length rem2) else end2);
                v = take (nat end3) rem2 in
            if v \<noteq> [] then v else NotFound)) = accept_value post"
proof (cases "CHR ''='' \<in> set post")
  case False
  then have "CHR ''='' \<notin> set rem" using assms by auto
  then show ?thesis using False by (simp add: Index_char_notin accept_value_def)
next
  case True
  then have mem: "CHR ''='' \<in> set rem" using assms by auto
  define k where "k = length (takeWhile (\<lambda>c. c \<noteq> CHR ''='') rem)"
  have idx: "Index rem ''='' = int k" using mem by (simp add: Index_char_in k_def)
  have klt: "k < length rem"
    unfolding k_def using mem by (rule length_takeWhile_mem)
  have "drop (Suc k) rem = tl (drop k rem)" by (simp add: drop_Suc tl_drop)
  also have "drop k rem = dropWhile (\<lambda>c. c \<noteq> CHR ''='') rem"
    unfolding k_def by (simp add: dropWhile_eq_drop)
  also have "\<dots> = dropWhile (\<lambda>c. c \<noteq> CHR ''='') post" using assms by simp
  finally have rem2: "drop (Suc k) rem = tl (dropWhile (\<lambda>c. c \<noteq> CHR ''='') post)" .
  have nat: "nat (int k + 1) = Suc k" by simp
  show ?thesis
    unfolding Let_def idx nat rem2
    using klt True take_value [of "tl (dropWhile (\<lambda>c. c \<noteq> CHR ''='') post)"]
    by (simp add: accept_value_def token_value_def Let_def)
qed

lemma GetVersion_fallthrough:
  assumes "\<forall>s. Context r contextKey \<noteq> Some (StringValue s)"
    and "Header_Get (Header r) AcceptVersionHeaderKey = []"
  shows "GetVersion r = accept_version (Header_Get (Header r) AcceptHeaderKey)"
proof -
  define a where "a = Header_Get (Header r) AcceptHeaderKey"
  have ctx: "(case Context r contextKey of Some (StringValue v) \<Rightarrow> Some v | _ \<Rightarrow> None) = None"
    using assms(1) by (auto split: option.splits ctx_value.splits)
  have G: "GetVersion r =
    (let idx = Index a AcceptHeaderVersionValue in
     if a \<noteq> [] \<and> idx \<noteq> - 1 then
      (let rem = drop (nat idx) a;
           startVersion = Index rem ''='' in
       if startVersion = - 1 \<or> int (length rem) < startVersion + 1 then NotFound
       else
        (let rem2 = drop (nat (startVersion + 1)) rem;
             end1 = Index rem2 '' '';
             end2 = (if end1 = - 1 then Index rem2 '';'' else end1);
             end3 = (if end2 = - 1 then int (length rem2) else end2);
             v = take (nat end3) rem2 in
         if v \<noteq> [] then v else NotFound))
     else NotFound)"
    unfolding GetVersion_def ctx a_def using assms(2) by (simp add: Let_def)
  have ne: "AcceptHeaderVersionValue \<noteq> []" by (simp add: AcceptHeaderVersionValue_def)
  note IA = Index_after_first [OF ne, of a]
  show ?thesis
  proof (cases "Index a AcceptHeaderVersionValue = - 1")
    case True
    with IA have "after_first AcceptHeaderVersionValue a = None" by simp
    with True show ?thesis unfolding G a_def [symmetric] by (simp add: accept_version_def)
  next
    case False
    define rem where "rem = drop (nat (Index a AcceptHeaderVersionValue)) a"
    define post where "post = drop (length AcceptHeaderVersionValue) rem"
    from False IA have pre: "prefix AcceptHeaderVersionValue rem"
      and af: "after_first AcceptHeaderVersionValue a = Some post"
      by (simp_all add: rem_def post_def)
    from pre have "rem = AcceptHeaderVersionValue @ post"
      unfolding post_def by (metis append_eq_conv_conj prefixE)
    then have rem_eq: "rem = ''version'' @ post" by (simp add: AcceptHeaderVersionValue_def)
    have ane: "a \<noteq> []" using rem_eq rem_def by auto
    show ?thesis
      unfolding G a_def [symmetric]
      using False ane af rem_value [OF rem_eq]
      by (simp add: accept_version_def Let_def rem_def [symmetric])
  qed
qed

text \<open>
  C3. \<open>GetVersion\<close> consults its sources in a fixed order and the first hit wins: a
  string attached to the request context is returned as it is, the empty string
  included, whatever the headers hold, and so is a version attached by \<open>WithVersion\<close>;
  without a string in the context, a non-empty \<open>Accept-Version\<close> header is returned as
  it is; without both, the result is read off the \<open>Accept\<close> header, and it is the
  sentinel when the substring \<open>version\<close> does not occur there.
\<close>

theorem GetVersion_sources:
  "(Context r contextKey = Some (StringValue s) \<longrightarrow> GetVersion r = s) \<and>
   GetVersion (r\<lparr>Context := WithVersion (Context r) s\<rparr>) = s \<and>
   ((\<forall>s. Context r contextKey \<noteq> Some (StringValue s)) \<and>
    Header_Get (Header r) AcceptVersionHeaderKey \<noteq> []
      \<longrightarrow> GetVersion r = Header_Get (Header r) AcceptVersionHeaderKey) \<and>
   ((\<forall>s. Context r contextKey \<noteq> Some (StringValue s)) \<and>
    Header_Get (Header r) AcceptVersionHeaderKey = []
      \<longrightarrow> GetVersion r = accept_version (Header_Get (Header r) AcceptHeaderKey)) \<and>
   (after_first AcceptHeaderVersionValue a = None \<longrightarrow> accept_version a = NotFound)"
proof -
  have 1: "Context r contextKey = Some (StringValue s) \<longrightarrow> GetVersion r = s"
    by (simp add: GetVersion_def)
  have 2: "GetVersion (r\<lparr>Context := WithVersion (Context r) s\<rparr>) = s"
    by (simp add: GetVersion_def WithVersion_def)
  have 3: "(\<forall>s. Context r contextKey \<noteq> Some (StringValue s)) \<and>
      Header_Get (Header r) AcceptVersionHeaderKey \<noteq> []
      \<longrightarrow> GetVersion r = Header_Get (Header r) AcceptVersionHeaderKey"
    by (auto simp: GetVersion_def Let_def split: option.splits ctx_value.splits)
  have 4: "(\<forall>s. Context r contextKey \<noteq> Some (StringValue s)) \<and>
      Header_Get (Header r) AcceptVersionHeaderKey = []
      \<longrightarrow> GetVersion r = accept_version (Header_Get (Header r) AcceptHeaderKey)"
    using GetVersion_fallthrough by blast
  have 5: "after_first AcceptHeaderVersionValue a = None \<longrightarrow> accept_version a = NotFound"
    by (simp add: accept_version_def)
  from 1 2 3 4 5 show ?thesis by blast
qed

theorem GetVersion_sources_witness:
  "Context \<lparr>Context = [contextKey \<mapsto> StringValue []],
            Header = [''Accept-Version'' \<mapsto> [''1.0''], ''Accept'' \<mapsto> [''a; version=2.5'']]\<rparr>
     contextKey = Some (StringValue []) \<and>
   GetVersion \<lparr>Context = [contextKey \<mapsto> StringValue []],
               Header = [''Accept-Version'' \<mapsto> [''1.0''], ''Accept'' \<mapsto> [''a; version=2.5'']]\<rparr> = [] \<and>
   (\<forall>s. Context \<lparr>Context = [contextKey \<mapsto> OtherValue 7],
                  Header = [''Accept-Version'' \<mapsto> [''1.0''], ''Accept'' \<mapsto> [''a; version=2.5'']]\<rparr>
          contextKey \<noteq> Some (StringValue s)) \<and>
   GetVersion \<lparr>Context = [contextKey \<mapsto> OtherValue 7],
               Header = [''Accept-Version'' \<mapsto> [''1.0''], ''Accept'' \<mapsto> [''a; version=2.5'']]\<rparr> = ''1.0'' \<and>
   Header_Get (Header \<lparr>Context = Map.empty, Header = [''Accept'' \<mapsto> [''version=2.5'']]\<rparr>)
     AcceptVersionHeaderKey = [] \<and>
   GetVersion \<lparr>Context = Map.empty, Header = [''Accept'' \<mapsto> [''version=2.5'']]\<rparr> = ''2.5'' \<and>
   after_first AcceptHeaderVersionValue ''text/html'' = None \<and>
   accept_version ''text/html'' = NotFound"
  using GetVersion_sources [of "\<lparr>Context = [contextKey \<mapsto> StringValue []],
            Header = [''Accept-Version'' \<mapsto> [''1.0''], ''Accept'' \<mapsto> [''a; version=2.5'']]\<rparr>" "[]" "''text/html''"]
    GetVersion_sources [of "\<lparr>Context = [contextKey \<mapsto> OtherValue 7],
            Header = [''Accept-Version'' \<mapsto> [''1.0''], ''Accept'' \<mapsto> [''a; version=2.5'']]\<rparr>" "[]" "''text/html''"]
    GetVersion_sources [of "\<lparr>Context = Map.empty, Header = [''Accept'' \<mapsto> [''version=2.5'']]\<rparr>" "[]" "''text/html''"]
  by (simp add: Header_Get_def AcceptVersionHeaderKey_def AcceptHeaderKey_def
      AcceptHeaderVersionValue_def accept_version_def accept_value_def token_value_def
      contextKey_def)

text \<open>
  The \<open>=\<close> that \<open>GetVersion\<close> takes need not stand next to the substring. In
  \<open>text/html; versions; charset=utf-8\<close> the substring is followed by \<open>s\<close> and the
  result is \<open>utf-8\<close>; in \<open>application/conversion+json;q=0.8\<close> the substring is a
  part of \<open>conversion\<close> and the result is \<open>0.8\<close>. With the \<open>=\<close> immediately following
  the substring, as the specification words it, both are the sentinel.
\<close>

theorem GetVersion_accept_token_counterexample:
  "GetVersion \<lparr>Context = Map.empty,
               Header = [''Accept'' \<mapsto> [''text/html; versions; charset=utf-8'']]\<rparr> = ''utf-8'' \<and>
   spec_accept_version ''text/html; versions; charset=utf-8'' = NotFound \<and>
   ''utf-8'' \<noteq> NotFound \<and>
   GetVersion \<lparr>Context = Map.empty,
               Header = [''Accept'' \<mapsto> [''application/conversion+json;q=0.8'']]\<rparr> = ''0.8'' \<and>
   spec_accept_version ''application/conversion+json;q=0.8'' = NotFound \<and>
   ''0.8'' \<noteq> NotFound"
proof -
  have 1: "GetVersion \<lparr>Context = Map.empty,
               Header = [''Accept'' \<mapsto> [''text/html; versions; charset=utf-8'']]\<rparr> = ''utf-8''"
    by (simp add: GetVersion_def Header_Get_def AcceptVersionHeaderKey_def AcceptHeaderKey_def
        AcceptHeaderVersionValue_def contextKey_def NotFound_def Let_def)
  have 2: "spec_accept_version ''text/html; versions; charset=utf-8'' = NotFound"
    by (simp add: spec_accept_version_def spec_accept_value_def AcceptHeaderVersionValue_def)
  have 3: "GetVersion \<lparr>Context = Map.empty,
               Header = [''Accept'' \<mapsto> [''application/conversion+json;q=0.8'']]\<rparr> = ''0.8''"
    by (simp add: GetVersion_def Header_Get_def AcceptVersionHeaderKey_def AcceptHeaderKey_def
        AcceptHeaderVersionValue_def contextKey_def NotFound_def Let_def)
  have 4: "spec_accept_version ''application/conversion+json;q=0.8'' = NotFound"
    by (simp add: spec_accept_version_def spec_accept_value_def AcceptHeaderVersionValue_def)
  have 5: "''utf-8'' \<noteq> NotFound" "''0.8'' \<noteq> NotFound"
    by (simp_all add: NotFound_def contextKey_def)
  from 1 2 3 4 5 show ?thesis by blast
qed

text \<open>
  C4. When \<open>GetVersion\<close> falls through to the \<open>Accept\<close> header (no string in the
  context, no \<open>Accept-Version\<close> value) and the substring \<open>version\<close> occurs in it,
  \<open>post\<close> being the text after its first occurrence: the result is the value of the
  text after the first \<open>=\<close> of \<open>post\<close>, which need not stand next to the substring,
  that is that text up to the first space or, without a space, the first semicolon or,
  without both, the end of the string; it is the sentinel when \<open>post\<close> has no \<open>=\<close>,
  when nothing follows the \<open>=\<close>, or when the value is empty. When the \<open>=\<close> does
  stand next to the substring, this is the value that the specification describes. The
  three requests of the specification give \<open>2.5\<close>, \<open>2.5\<close> and the sentinel.
\<close>

theorem GetVersion_accept_token:
  "((\<forall>s. Context r contextKey \<noteq> Some (StringValue s)) \<and>
    Header_Get (Header r) AcceptVersionHeaderKey = [] \<and>
    after_first AcceptHeaderVersionValue (Header_Get (Header r) AcceptHeaderKey) = Some post
      \<longrightarrow> GetVersion r = accept_value post \<and>
          (CHR ''='' \<notin> set post \<longrightarrow> GetVersion r = NotFound) \<and>
          (\<forall>x after. post = x @ CHR ''='' # after \<and> CHR ''='' \<notin> set x
             \<longrightarrow> GetVersion r = token_value after) \<and>
          (\<forall>x. post = x @ ''='' \<and> CHR ''='' \<notin> set x \<longrightarrow> GetVersion r = NotFound) \<and>
          (\<forall>after. post = CHR ''='' # after \<longrightarrow> GetVersion r = spec_accept_value post)) \<and>
   GetVersion \<lparr>Context = Map.empty, Header = [''Accept'' \<mapsto> [''application/json; version=2.5'']]\<rparr>
     = ''2.5'' \<and>
   GetVersion \<lparr>Context = Map.empty,
               Header = [''Accept'' \<mapsto> [''application/json; version=2.5 ;other=x'']]\<rparr>
     = ''2.5'' \<and>
   GetVersion \<lparr>Context = Map.empty, Header = [''Accept'' \<mapsto> [''version='']]\<rparr> = NotFound"
proof -
  have gen: "GetVersion r = accept_value post \<and>
          (CHR ''='' \<notin> set post \<longrightarrow> GetVersion r = NotFound) \<and>
          (\<forall>x after. post = x @ CHR ''='' # after \<and> CHR ''='' \<notin> set x
             \<longrightarrow> GetVersion r = token_value after) \<and>
          (\<forall>x. post = x @ ''='' \<and> CHR ''='' \<notin> set x \<longrightarrow> GetVersion r = NotFound) \<and>
          (\<forall>after. post = CHR ''='' # after \<longrightarrow> GetVersion r = spec_accept_value post)"
    if a: "\<forall>s. Context r contextKey \<noteq> Some (StringValue s)"
      and b: "Header_Get (Header r) AcceptVersionHeaderKey = []"
      and c: "after_first AcceptHeaderVersionValue (Header_Get (Header r) AcceptHeaderKey) = Some post"
  proof -
    have v: "GetVersion r = accept_value post"
      using GetVersion_fallthrough [OF a b] c by (simp add: accept_version_def)
    have n1: "CHR ''='' \<notin> set post \<longrightarrow> accept_value post = NotFound"
      by (simp add: accept_value_def)
    have n2: "accept_value (x @ CHR ''='' # after) = token_value after"
      if "CHR ''='' \<notin> set x" for x after
    proof -
      have "dropWhile (\<lambda>c. c \<noteq> CHR ''='') (x @ CHR ''='' # after) = CHR ''='' # after"
        using that by (induction x) auto
      then show ?thesis by (simp add: accept_value_def)
    qed
    have n3: "accept_value (x @ ''='') = NotFound" if "CHR ''='' \<notin> set x" for x
      using n2 [OF that, of "[]"] by (simp add: token_value_def)
    have n4: "accept_value (CHR ''='' # after) = spec_accept_value (CHR ''='' # after)" for after
      using n2 [of "[]" after] by (simp add: spec_accept_value_def)
    from n1 n2 n3 n4 show ?thesis unfolding v by auto
  qed
  have e1: "GetVersion \<lparr>Context = Map.empty, Header = [''Accept'' \<mapsto> [''application/json; version=2.5'']]\<rparr>
     = ''2.5''"
    by (simp add: GetVersion_def Header_Get_def AcceptVersionHeaderKey_def AcceptHeaderKey_def
        AcceptHeaderVersionValue_def contextKey_def NotFound_def Let_def)
  have e2: "GetVersion \<lparr>Context = Map.empty,
               Header = [''Accept'' \<mapsto> [''application/json; version=2.5 ;other=x'']]\<rparr>
     = ''2.5''"
    by (simp add: GetVersion_def Header_Get_def AcceptVersionHeaderKey_def AcceptHeaderKey_def
        AcceptHeaderVersionValue_def contextKey_def NotFound_def Let_def)
  have e3: "GetVersion \<lparr>Context = Map.empty, Header = [''Accept'' \<mapsto> [''version='']]\<rparr> = NotFound"
    by (simp add: GetVersion_def Header_Get_def AcceptVersionHeaderKey_def AcceptHeaderKey_def
        AcceptHeaderVersionValue_def contextKey_def NotFound_def Let_def)
  from gen e1 e2 e3 show ?thesis by blast
qed

theorem GetVersion_accept_token_witness:
  "(\<forall>s. Context \<lparr>Context = Map.empty, Header = [''Accept'' \<mapsto> [''a/b; version=2.5;q=1 x'']]\<rparr>
          contextKey \<noteq> Some (StringValue s)) \<and>
   Header_Get (Header \<lparr>Context = Map.empty, Header = [''Accept'' \<mapsto> [''a/b; version=2.5;q=1 x'']]\<rparr>)
     AcceptVersionHeaderKey = [] \<and>
   after_first AcceptHeaderVersionValue
     (Header_Get (Header \<lparr>Context = Map.empty, Header = [''Accept'' \<mapsto> [''a/b; version=2.5;q=1 x'']]\<rparr>)
        AcceptHeaderKey) = Some ''=2.5;q=1 x'' \<and>
   GetVersion \<lparr>Context = Map.empty, Header = [''Accept'' \<mapsto> [''a/b; version=2.5;q=1 x'']]\<rparr>
     = ''2.5;q=1'' \<and>
   after_first AcceptHeaderVersionValue
     (Header_Get (Header \<lparr>Context = Map.empty,
        Header = [''Accept'' \<mapsto> [''text/html; versions; charset=utf-8'']]\<rparr>)
        AcceptHeaderKey) = Some ''s; charset=utf-8'' \<and>
   GetVersion \<lparr>Context = Map.empty,
               Header = [''Accept'' \<mapsto> [''text/html; versions; charset=utf-8'']]\<rparr>
     = token_value ''utf-8'' \<and>
   token_value ''utf-8'' = ''utf-8''"
proof -
  let ?r1 = "\<lparr>Context = Map.empty, Header = [''Accept'' \<mapsto> [''a/b; version=2.5;q=1 x'']]\<rparr>"
  let ?r2 = "\<lparr>Context = Map.empty,
               Header = [''Accept'' \<mapsto> [''text/html; versions; charset=utf-8'']]\<rparr>"
  have a1: "\<forall>s. Context ?r1 contextKey \<noteq> Some (StringValue s)" by simp
  have b1: "Header_Get (Header ?r1) AcceptVersionHeaderKey = []"
    by (simp add: Header_Get_def AcceptVersionHeaderKey_def)
  have c1: "after_first AcceptHeaderVersionValue (Header_Get (Header ?r1) AcceptHeaderKey)
      = Some ''=2.5;q=1 x''"
    by (simp add: Header_Get_def AcceptHeaderKey_def AcceptHeaderVersionValue_def)
  have a2: "\<forall>s. Context ?r2 contextKey \<noteq> Some (StringValue s)" by simp
  have b2: "Header_Get (Header ?r2) AcceptVersionHeaderKey = []"
    by (simp add: Header_Get_def AcceptVersionHeaderKey_def)
  have c2: "after_first AcceptHeaderVersionValue (Header_Get (Header ?r2) AcceptHeaderKey)
      = Some ''s; charset=utf-8''"
    by (simp add: Header_Get_def AcceptHeaderKey_def AcceptHeaderVersionValue_def)
  have p2: "''s; charset=utf-8'' = ''s; charset'' @ CHR ''='' # ''utf-8''"
    and q2: "CHR ''='' \<notin> set ''s; charset''" by simp_all
  have t: "token_value ''utf-8'' = ''utf-8''" by (simp add: token_value_def)
  have s1: "spec_accept_value ''=2.5;q=1 x'' = ''2.5;q=1''"
    by (simp add: spec_accept_value_def token_value_def)
  from GetVersion_accept_token [of ?r1 "''=2.5;q=1 x''"] a1 b1 c1
  have "GetVersion ?r1 = spec_accept_value ''=2.5;q=1 x''" by blast
  then have g1: "GetVersion ?r1 = ''2.5;q=1''" unfolding s1 .
  from GetVersion_accept_token [of ?r2 "''s; charset=utf-8''"] a2 b2 c2 p2 q2
  have g2: "GetVersion ?r2 = token_value ''utf-8''" by blast
  from a1 b1 c1 g1 c2 g2 t show ?thesis by blast
qed

section \<open>More values of the instance\<close>

lemma go_NewConstraint_1_0: "go_NewConstraint ''1.0'' = Some [(Equal, [1, 0, 0])]"
  by (simp add: go_defs replicate_zeros)

lemma go_NewConstraint_range:
  "go_NewConstraint ''>= 2, < 3'' = Some [(GreaterThanEqual, [2, 0, 0]), (LessThan, [3, 0, 0])]"
  by (simp add: go_defs replicate_zeros)

lemma go_NewVersion_2_5: "go_NewVersion ''2.5'' = Some [2, 5, 0]"
  by (simp add: go_defs replicate_zeros)

lemma go_NewVersion_3_0: "go_NewVersion ''3.0'' = Some [3, 0, 0]"
  by (simp add: go_defs replicate_zeros)

lemma go_String_values: "go_String [1, 0, 0] = ''1.0.0''" "go_String [2, 5, 0] = ''2.5.0''"
  by (simp_all add: go_String_def itoa_digits)

lemma NotFound_neq: "''>> 1'' \<noteq> NotFound" "''1.0'' \<noteq> NotFound" "''>= 2, < 3'' \<noteq> NotFound"
  "''>=1'' \<noteq> NotFound" "''2.5'' \<noteq> NotFound" "''3.0'' \<noteq> NotFound"
  by (simp_all add: NotFound_def contextKey_def)


lemma GetVersion_withHeader:
  "v \<noteq> [] \<Longrightarrow> GetVersion (withHeader AcceptVersionHeaderKey v) = v"
  by (simp add: GetVersion_def withHeader_def Header_Get_def)

lemma go_Check_values:
  "go_Check [(Equal, [1, 0, 0])] [1, 0, 0]"
  "\<not> go_Check [(Equal, [1, 0, 0])] [2, 5, 0]"
  "\<not> go_Check [(Equal, [1, 0, 0])] [3, 0, 0]"
  "\<not> go_Check [(GreaterThanEqual, [2, 0, 0]), (LessThan, [3, 0, 0])] [1, 0, 0]"
  "go_Check [(GreaterThanEqual, [2, 0, 0]), (LessThan, [3, 0, 0])] [2, 5, 0]"
  "\<not> go_Check [(GreaterThanEqual, [2, 0, 0]), (LessThan, [3, 0, 0])] [3, 0, 0]"
  "go_Check [(GreaterThanEqual, [1, 0, 0])] [1, 0, 0]"
  by (simp_all add: go_Check_def)

lemma buildConstraints_example:
  "buildConstraints go_version [(''1.0'', H1), (''>= 2, < 3'', H2)] =
     Inr ([\<lparr>constraints = [(Equal, [1, 0, 0])], handler = H1\<rparr>,
           \<lparr>constraints = [(GreaterThanEqual, [2, 0, 0]), (LessThan, [3, 0, 0])], handler = H2\<rparr>],
          NotFoundHandler)"
  by (simp add: buildConstraints_def NotFound_neq go_version_def go_NewConstraint_1_0
      go_NewConstraint_range)

lemma buildConstraints_example_rev:
  "buildConstraints go_version [(''>= 2, < 3'', H2), (''1.0'', H1)] =
     Inr ([\<lparr>constraints = [(GreaterThanEqual, [2, 0, 0]), (LessThan, [3, 0, 0])], handler = H2\<rparr>,
           \<lparr>constraints = [(Equal, [1, 0, 0])], handler = H1\<rparr>],
          NotFoundHandler)"
  by (simp add: buildConstraints_def NotFound_neq go_version_def go_NewConstraint_1_0
      go_NewConstraint_range)


section \<open>If\<close>

text \<open>
  C5. \<open>If\<close> is a total function of its two strings: it is false when the version does
  not parse, false when the constraint does not parse, and otherwise it is the check of
  the parsed constraint on the parsed version.
\<close>

theorem If_version_total:
  "(NewVersion L v = None \<longrightarrow> \<not> If_version L v c) \<and>
   (NewConstraint L c = None \<longrightarrow> \<not> If_version L v c) \<and>
   (\<forall>ver cs. NewVersion L v = Some ver \<and> NewConstraint L c = Some cs
      \<longrightarrow> If_version L v c = Check L cs ver)"
  by (auto simp: If_version_def split: option.splits)

theorem If_version_total_witness:
  "NewVersion go_version ''x'' = None \<and> \<not> If_version go_version ''x'' ''>=1'' \<and>
   NewConstraint go_version ''>> 1'' = None \<and> \<not> If_version go_version ''1.0'' ''>> 1'' \<and>
   NewVersion go_version ''1.0'' = Some [1, 0, 0] \<and>
   NewConstraint go_version ''>=1'' = Some [(GreaterThanEqual, [1, 0, 0])] \<and>
   If_version go_version ''1.0'' ''>=1'' = Check go_version [(GreaterThanEqual, [1, 0, 0])] [1, 0, 0] \<and>
   If_version go_version ''1.0'' ''>=1''"
  using If_version_total [of go_version "''x''" "''>=1''"]
    If_version_total [of go_version "''1.0''" "''>> 1''"]
    If_version_total [of go_version "''1.0''" "''>=1''"]
  by (simp add: go_version_def go_NewVersion_1_0 go_NewVersion_x go_NewConstraint_ge1
      go_NewConstraint_bad go_Check_def)

section \<open>NewMatcher\<close>

lemma buildConstraints_loop_panic:
  "(k, h) \<in> set versions \<Longrightarrow> k \<noteq> NotFound \<Longrightarrow> NewConstraint L k = None
   \<Longrightarrow> \<exists>e. buildConstraints_loop L versions acc nf = Inl e"
proof (induction versions arbitrary: acc nf)
  case Nil
  then show ?case by simp
next
  case (Cons x versions)
  obtain v h' where x: "x = (v, h')" by (cases x)
  show ?case
  proof (cases "x = (k, h)")
    case True
    with x Cons.prems show ?thesis by simp
  next
    case False
    with Cons.prems have "(k, h) \<in> set versions" by simp
    from Cons.IH [OF this Cons.prems(2,3)] show ?thesis
      unfolding x by (simp split: option.splits)
  qed
qed

lemma buildConstraints_loop_Inr:
  "buildConstraints_loop L versions acc nf = Inr (chs, nf')
   \<Longrightarrow> (\<forall>(k, h) \<in> set versions. k \<noteq> NotFound \<longrightarrow> NewConstraint L k \<noteq> None) \<and>
       map (\<lambda>ch. (Some (constraints ch), handler ch)) chs =
         map (\<lambda>ch. (Some (constraints ch), handler ch)) acc @
         map (\<lambda>(k, h). (NewConstraint L k, h)) (filter (\<lambda>(k, h). k \<noteq> NotFound) versions)"
proof (induction versions arbitrary: acc nf)
  case Nil
  then show ?case by simp
next
  case (Cons x versions)
  obtain v h where x: "x = (v, h)" by (cases x)
  show ?case
  proof (cases "v = NotFound")
    case True
    with Cons.prems x have "buildConstraints_loop L versions acc h = Inr (chs, nf')" by simp
    from Cons.IH [OF this] True x show ?thesis by simp
  next
    case False
    with Cons.prems x obtain cs where cs: "NewConstraint L v = Some cs"
      and rec: "buildConstraints_loop L versions (acc @ [\<lparr>constraints = cs, handler = h\<rparr>]) nf = Inr (chs, nf')"
      by (auto split: option.splits)
    from Cons.IH [OF rec] False x cs show ?thesis by simp
  qed
qed

text \<open>
  C6. A key of the map other than the sentinel that does not parse as a constraint makes
  \<open>buildConstraints\<close>, and with it \<open>NewMatcher\<close>, panic: no matcher is returned. When
  construction succeeds, every key other than the sentinel has parsed, and the stored
  pairs are the parsed keys other than the sentinel with their handlers, in the order of
  the map, none dropped.
\<close>

theorem buildConstraints_parse_failure:
  "((k, h) \<in> set versions \<and> k \<noteq> NotFound \<and> NewConstraint L k = None
      \<longrightarrow> (\<exists>e. buildConstraints L versions = Inl e) \<and> (\<exists>e. NewMatcher L versions = Inl e)) \<and>
   (buildConstraints L versions = Inr (chs, nf)
      \<longrightarrow> (\<forall>(k, h) \<in> set versions. k \<noteq> NotFound \<longrightarrow> NewConstraint L k \<noteq> None) \<and>
          map (\<lambda>ch. (Some (constraints ch), handler ch)) chs =
            map (\<lambda>(k, h). (NewConstraint L k, h)) (filter (\<lambda>(k, h). k \<noteq> NotFound) versions)) \<and>
   (\<forall>m. NewMatcher L versions = Inr m
      \<longrightarrow> (\<forall>(k, h) \<in> set versions. k \<noteq> NotFound \<longrightarrow> NewConstraint L k \<noteq> None))"
proof -
  have 1: "(\<exists>e. buildConstraints L versions = Inl e) \<and> (\<exists>e. NewMatcher L versions = Inl e)"
    if "(k, h) \<in> set versions" "k \<noteq> NotFound" "NewConstraint L k = None"
  proof -
    from buildConstraints_loop_panic [OF that]
    obtain e where "buildConstraints_loop L versions [] NilHandler = Inl e" by blast
    then have "buildConstraints L versions = Inl e" by (simp add: buildConstraints_def)
    then show ?thesis by (simp add: NewMatcher_def)
  qed
  have 2: "(\<forall>(k, h) \<in> set versions. k \<noteq> NotFound \<longrightarrow> NewConstraint L k \<noteq> None) \<and>
          map (\<lambda>ch. (Some (constraints ch), handler ch)) chs =
            map (\<lambda>(k, h). (NewConstraint L k, h)) (filter (\<lambda>(k, h). k \<noteq> NotFound) versions)"
    if "buildConstraints L versions = Inr (chs, nf)" for chs nf
  proof -
    from that obtain nf' where "buildConstraints_loop L versions [] NilHandler = Inr (chs, nf')"
      by (auto simp: buildConstraints_def split: sum.splits)
    from buildConstraints_loop_Inr [OF this] show ?thesis by simp
  qed
  have 3: "\<forall>(k, h) \<in> set versions. k \<noteq> NotFound \<longrightarrow> NewConstraint L k \<noteq> None"
    if "NewMatcher L versions = Inr m" for m
  proof -
    from that obtain chs' nf' where "buildConstraints L versions = Inr (chs', nf')"
      by (auto simp: NewMatcher_def split: sum.splits)
    from 2 [OF this] show ?thesis by blast
  qed
  from 1 2 3 show ?thesis by blast
qed

theorem buildConstraints_parse_failure_witness:
  "(''>> 1'', sendHandler ''v2'') \<in> set [(''1.0'', sendHandler ''v1''), (''>> 1'', sendHandler ''v2'')] \<and>
   ''>> 1'' \<noteq> NotFound \<and> NewConstraint go_version ''>> 1'' = None \<and>
   buildConstraints go_version [(''1.0'', sendHandler ''v1''), (''>> 1'', sendHandler ''v2'')] =
     Inl (Panic ''>> 1'') \<and>
   NewMatcher go_version [(''1.0'', sendHandler ''v1''), (''>> 1'', sendHandler ''v2'')] =
     Inl (Panic ''>> 1'') \<and>
   buildConstraints go_version [(''1.0'', sendHandler ''v1''), (''>= 2, < 3'', sendHandler ''v2'')] =
     Inr ([\<lparr>constraints = [(Equal, [1, 0, 0])], handler = sendHandler ''v1''\<rparr>,
           \<lparr>constraints = [(GreaterThanEqual, [2, 0, 0]), (LessThan, [3, 0, 0])],
            handler = sendHandler ''v2''\<rparr>], NotFoundHandler) \<and>
   (\<exists>m. NewMatcher go_version [(''1.0'', sendHandler ''v1''), (''>= 2, < 3'', sendHandler ''v2'')] = Inr m) \<and>
   NewConstraint go_version ''1.0'' \<noteq> None \<and> NewConstraint go_version ''>= 2, < 3'' \<noteq> None"
proof -
  let ?bad = "[(''1.0'', sendHandler ''v1''), (''>> 1'', sendHandler ''v2'')]"
  let ?vs = "[(''1.0'', sendHandler ''v1''), (''>= 2, < 3'', sendHandler ''v2'')]"
  let ?chs = "[\<lparr>constraints = [(Equal, [1, 0, 0])], handler = sendHandler ''v1''\<rparr>,
         \<lparr>constraints = [(GreaterThanEqual, [2, 0, 0]), (LessThan, [3, 0, 0])],
          handler = sendHandler ''v2''\<rparr>]"
  have h1: "(''>> 1'', sendHandler ''v2'') \<in> set ?bad" by simp
  have h2: "''>> 1'' \<noteq> NotFound" by (rule NotFound_neq)
  have h3: "NewConstraint go_version ''>> 1'' = None"
    by (simp add: go_version_def go_NewConstraint_bad)
  have h4: "buildConstraints go_version ?vs = Inr (?chs, NotFoundHandler)"
    by (rule buildConstraints_example)
  have c1: "(\<exists>e. buildConstraints go_version ?bad = Inl e) \<and> (\<exists>e. NewMatcher go_version ?bad = Inl e)"
    using buildConstraints_parse_failure [of "''>> 1''" "sendHandler ''v2''" ?bad go_version] h1 h2 h3
    by blast
  have e1: "buildConstraints go_version ?bad = Inl (Panic ''>> 1'')"
    by (simp add: buildConstraints_def NotFound_neq go_version_def go_NewConstraint_1_0
        go_NewConstraint_bad)
  then have e2: "NewMatcher go_version ?bad = Inl (Panic ''>> 1'')"
    by (simp add: NewMatcher_def)
  have c2: "\<forall>(k, h) \<in> set ?vs. k \<noteq> NotFound \<longrightarrow> NewConstraint go_version k \<noteq> None"
    using buildConstraints_parse_failure [of "''>> 1''" "sendHandler ''v2''" ?vs go_version
        ?chs NotFoundHandler] h4 by blast
  have c3: "\<exists>m. NewMatcher go_version ?vs = Inr m"
    by (simp add: NewMatcher_def h4)
  from c2 have c4: "NewConstraint go_version ''1.0'' \<noteq> None \<and>
      NewConstraint go_version ''>= 2, < 3'' \<noteq> None"
    by (simp add: NotFound_neq)
  from h1 h2 h3 h4 c1 e1 e2 c3 c4 show ?thesis by simp
qed

lemma Matcher_loop_None:
  "(Matcher_loop L chs ver = None) = (\<forall>ch \<in> set chs. \<not> Check L (constraints ch) ver)"
  by (induction chs) auto

lemma Matcher_loop_first:
  "\<forall>c \<in> set pre. \<not> Check L (constraints c) ver \<Longrightarrow> Check L (constraints ch) ver
   \<Longrightarrow> Matcher_loop L (pre @ ch # post) ver =
       Some [HeaderSet ''X-API-Version'' (Version_String L ver), ServeHTTP (handler ch)]"
  by (induction pre) auto

lemma Matcher_loop_Some:
  "Matcher_loop L chs ver = Some as
   \<Longrightarrow> \<exists>ch \<in> set chs. as = [HeaderSet ''X-API-Version'' (Version_String L ver), ServeHTTP (handler ch)]"
  by (induction chs) (auto split: if_splits)

lemma buildConstraints_loop_fallback_absent:
  "buildConstraints_loop L m acc f = Inr (chs, f') \<Longrightarrow> NotFound \<notin> fst ` set m \<Longrightarrow> f' = f"
proof (induction m arbitrary: acc f)
  case Nil
  then show ?case by simp
next
  case (Cons x m)
  obtain v h where x: "x = (v, h)" by (cases x)
  from Cons.prems(2) x have ne: "v \<noteq> NotFound" and notin: "NotFound \<notin> fst ` set m" by auto
  from Cons.prems(1) x ne obtain cs where
    rec: "buildConstraints_loop L m (acc @ [\<lparr>constraints = cs, handler = h\<rparr>]) f = Inr (chs, f')"
    by (auto split: option.splits)
  from Cons.IH [OF rec notin] show ?case .
qed

lemma buildConstraints_loop_fallback:
  "buildConstraints_loop L m acc f = Inr (chs, f') \<Longrightarrow> distinct (map fst m)
   \<Longrightarrow> map_of m NotFound = Some h \<Longrightarrow> f' = h"
proof (induction m arbitrary: acc f)
  case Nil
  then show ?case by simp
next
  case (Cons x m)
  obtain v h' where x: "x = (v, h')" by (cases x)
  from Cons.prems(2) x have d: "distinct (map fst m)" and notin: "v \<notin> fst ` set m" by auto
  show ?case
  proof (cases "v = NotFound")
    case True
    with Cons.prems(3) x have h: "h' = h" by simp
    from Cons.prems(1) x True have "buildConstraints_loop L m acc h' = Inr (chs, f')" by simp
    from buildConstraints_loop_fallback_absent [OF this] notin True h show ?thesis by simp
  next
    case False
    with Cons.prems(3) x have mo: "map_of m NotFound = Some h" by simp
    from Cons.prems(1) x False obtain cs where
      rec: "buildConstraints_loop L m (acc @ [\<lparr>constraints = cs, handler = h'\<rparr>]) f = Inr (chs, f')"
      by (auto split: option.splits)
    from Cons.IH [OF rec d mo] show ?thesis .
  qed
qed

lemma buildConstraints_fallback:
  assumes "buildConstraints L m = Inr (chs, nf)" and "distinct (map fst m)"
  shows "nf = (case map_of m NotFound of
                 None \<Rightarrow> NotFoundHandler
               | Some NilHandler \<Rightarrow> NotFoundHandler
               | Some (HandlerFunc f) \<Rightarrow> HandlerFunc f)"
proof -
  from assms(1) obtain f' where
    loop: "buildConstraints_loop L m [] NilHandler = Inr (chs, f')" and
    nf: "nf = (case f' of NilHandler \<Rightarrow> NotFoundHandler | HandlerFunc f \<Rightarrow> f')"
    by (auto simp: buildConstraints_def split: sum.splits)
  show ?thesis
  proof (cases "map_of m NotFound")
    case None
    then have "NotFound \<notin> fst ` set m" by (simp add: map_of_eq_None_iff)
    from buildConstraints_loop_fallback_absent [OF loop this] nf None show ?thesis by simp
  next
    case (Some h)
    from buildConstraints_loop_fallback [OF loop assms(2) Some] nf Some show ?thesis
      by (simp split: handler.splits)
  qed
qed

text \<open>
  C1. The handler that \<open>NewMatcher\<close> returns performs \<open>Matcher_body\<close> on the pairs and
  the fallback handler that \<open>buildConstraints\<close> gives for the map. The pairs are the
  entries of the map other than the sentinel one, with their keys parsed; the fallback
  handler is the handler of the sentinel entry of the map, and it is \<open>NotFoundHandler\<close>
  when the map has no such entry or when that handler is \<open>nil\<close>. When the version of
  the request is the sentinel, does not parse, or satisfies none of the stored
  constraints, the body is the single call of the fallback handler, on the response writer
  as it was received. Otherwise, for the first stored pair that the parsed version
  satisfies, the body sets \<open>X-API-Version\<close> to the string of the parsed version and calls
  the handler of that pair. In every case the body calls exactly one handler, once, and
  it sets the header exactly in the case of a match.
\<close>

theorem Matcher_dispatch:
  "(NewMatcher L versions = Inr m
      \<longrightarrow> (\<exists>chs nf. buildConstraints L versions = Inr (chs, nf) \<and>
            m = HandlerFunc (\<lambda>w r. run (Matcher_body L chs nf r) w r))) \<and>
   (buildConstraints L versions = Inr (chs, nf)
      \<longrightarrow> map (\<lambda>ch. (Some (constraints ch), handler ch)) chs =
            map (\<lambda>(k, h). (NewConstraint L k, h)) (filter (\<lambda>(k, h). k \<noteq> NotFound) versions) \<and>
          (distinct (map fst versions)
             \<longrightarrow> nf = (case map_of versions NotFound of
                         None \<Rightarrow> NotFoundHandler
                       | Some NilHandler \<Rightarrow> NotFoundHandler
                       | Some (HandlerFunc f) \<Rightarrow> HandlerFunc f))) \<and>
   (GetVersion r = NotFound \<or> NewVersion L (GetVersion r) = None \<or>
    (\<exists>ver. NewVersion L (GetVersion r) = Some ver \<and>
           (\<forall>ch \<in> set chs. \<not> Check L (constraints ch) ver))
      \<longrightarrow> Matcher_body L chs nf r = [ServeHTTP nf] \<and>
          run (Matcher_body L chs nf r) w r = Handler_ServeHTTP nf w r) \<and>
   (GetVersion r \<noteq> NotFound \<and> NewVersion L (GetVersion r) = Some ver \<and>
    chs = pre @ ch # post \<and> (\<forall>c \<in> set pre. \<not> Check L (constraints c) ver) \<and>
    Check L (constraints ch) ver
      \<longrightarrow> Matcher_body L chs nf r =
            [HeaderSet ''X-API-Version'' (Version_String L ver), ServeHTTP (handler ch)] \<and>
          run (Matcher_body L chs nf r) w r =
            Handler_ServeHTTP (handler ch)
              (w\<lparr>header := Header_Set (header w) ''X-API-Version'' (Version_String L ver)\<rparr>) r) \<and>
   length (filter is_ServeHTTP (Matcher_body L chs nf r)) = 1 \<and>
   ((\<exists>a \<in> set (Matcher_body L chs nf r). is_HeaderSet ''X-API-Version'' a) =
    (GetVersion r \<noteq> NotFound \<and>
     (\<exists>ver. NewVersion L (GetVersion r) = Some ver \<and>
            (\<exists>ch \<in> set chs. Check L (constraints ch) ver))))"
proof -
  have 1: "NewMatcher L versions = Inr m
      \<longrightarrow> (\<exists>chs nf. buildConstraints L versions = Inr (chs, nf) \<and>
            m = HandlerFunc (\<lambda>w r. run (Matcher_body L chs nf r) w r))"
    by (auto simp: NewMatcher_def split: sum.splits)
  have 6: "map (\<lambda>ch. (Some (constraints ch), handler ch)) chs =
            map (\<lambda>(k, h). (NewConstraint L k, h)) (filter (\<lambda>(k, h). k \<noteq> NotFound) versions)"
    if "buildConstraints L versions = Inr (chs, nf)"
  proof -
    from that obtain nf' where "buildConstraints_loop L versions [] NilHandler = Inr (chs, nf')"
      by (auto simp: buildConstraints_def split: sum.splits)
    from buildConstraints_loop_Inr [OF this] show ?thesis by simp
  qed
  have 7: "nf = (case map_of versions NotFound of
                         None \<Rightarrow> NotFoundHandler
                       | Some NilHandler \<Rightarrow> NotFoundHandler
                       | Some (HandlerFunc f) \<Rightarrow> HandlerFunc f)"
    if "buildConstraints L versions = Inr (chs, nf)" "distinct (map fst versions)"
    using that by (rule buildConstraints_fallback)
  have 2: "Matcher_body L chs nf r = [ServeHTTP nf] \<and>
      run (Matcher_body L chs nf r) w r = Handler_ServeHTTP nf w r"
    if "GetVersion r = NotFound \<or> NewVersion L (GetVersion r) = None \<or>
        (\<exists>ver. NewVersion L (GetVersion r) = Some ver \<and>
           (\<forall>ch \<in> set chs. \<not> Check L (constraints ch) ver))"
  proof -
    have "Matcher_body L chs nf r = [ServeHTTP nf]"
      using that
      by (auto simp: Matcher_body_def Let_def Matcher_loop_None [symmetric] split: option.splits)
    then show ?thesis by (simp split: option.splits)
  qed
  have 3: "Matcher_body L chs nf r =
            [HeaderSet ''X-API-Version'' (Version_String L ver), ServeHTTP (handler ch)] \<and>
          run (Matcher_body L chs nf r) w r =
            Handler_ServeHTTP (handler ch)
              (w\<lparr>header := Header_Set (header w) ''X-API-Version'' (Version_String L ver)\<rparr>) r"
    if "GetVersion r \<noteq> NotFound" "NewVersion L (GetVersion r) = Some ver"
      "chs = pre @ ch # post" "\<forall>c \<in> set pre. \<not> Check L (constraints c) ver"
      "Check L (constraints ch) ver"
  proof -
    have "Matcher_body L chs nf r =
            [HeaderSet ''X-API-Version'' (Version_String L ver), ServeHTTP (handler ch)]"
      using that Matcher_loop_first [of pre L ver ch post]
      by (simp add: Matcher_body_def Let_def)
    then show ?thesis by (simp split: option.splits)
  qed
  have 4: "length (filter is_ServeHTTP (Matcher_body L chs nf r)) = 1"
    by (auto simp: Matcher_body_def Let_def split: option.splits dest!: Matcher_loop_Some)
  have 5: "(\<exists>a \<in> set (Matcher_body L chs nf r). is_HeaderSet ''X-API-Version'' a) =
    (GetVersion r \<noteq> NotFound \<and>
     (\<exists>ver. NewVersion L (GetVersion r) = Some ver \<and>
            (\<exists>ch \<in> set chs. Check L (constraints ch) ver)))"
  proof (cases "GetVersion r = NotFound")
    case True
    then show ?thesis by (simp add: Matcher_body_def)
  next
    case False
    show ?thesis
    proof (cases "NewVersion L (GetVersion r)")
      case None
      with False show ?thesis by (simp add: Matcher_body_def)
    next
      case (Some ver)
      show ?thesis
      proof (cases "Matcher_loop L chs ver")
        case None
        with False Some Matcher_loop_None [of L chs ver] show ?thesis
          by (simp add: Matcher_body_def)
      next
        case (Some as)
        from Matcher_loop_Some [OF Some] Some Matcher_loop_None [of L chs ver]
        have "\<exists>ch \<in> set chs. Check L (constraints ch) ver"
          and "\<exists>a \<in> set as. is_HeaderSet ''X-API-Version'' a" by auto
        with False \<open>NewVersion L (GetVersion r) = Some ver\<close> Some show ?thesis
          by (simp add: Matcher_body_def)
      qed
    qed
  qed
  from 1 2 3 4 5 6 7 show ?thesis by blast
qed

theorem Matcher_dispatch_witness:
  "NewMatcher go_version [(''1.0'', sendHandler ''v1''), (''>= 2, < 3'', sendHandler ''v2'')] =
     Inr (HandlerFunc (\<lambda>w r. run (Matcher_body go_version
        [\<lparr>constraints = [(Equal, [1, 0, 0])], handler = sendHandler ''v1''\<rparr>,
         \<lparr>constraints = [(GreaterThanEqual, [2, 0, 0]), (LessThan, [3, 0, 0])],
          handler = sendHandler ''v2''\<rparr>] NotFoundHandler r) w r)) \<and>
   NewVersion go_version (GetVersion (withHeader AcceptVersionHeaderKey ''3.0'')) = Some [3, 0, 0] \<and>
   \<not> Check go_version [(Equal, [1, 0, 0])] [3, 0, 0] \<and>
   \<not> Check go_version [(GreaterThanEqual, [2, 0, 0]), (LessThan, [3, 0, 0])] [3, 0, 0] \<and>
   Matcher_body go_version
        [\<lparr>constraints = [(Equal, [1, 0, 0])], handler = sendHandler ''v1''\<rparr>,
         \<lparr>constraints = [(GreaterThanEqual, [2, 0, 0]), (LessThan, [3, 0, 0])],
          handler = sendHandler ''v2''\<rparr>] NotFoundHandler (withHeader AcceptVersionHeaderKey ''3.0'')
     = [ServeHTTP NotFoundHandler] \<and>
   GetVersion (withHeader AcceptVersionHeaderKey ''2.5'') \<noteq> NotFound \<and>
   NewVersion go_version (GetVersion (withHeader AcceptVersionHeaderKey ''2.5'')) = Some [2, 5, 0] \<and>
   \<not> Check go_version [(Equal, [1, 0, 0])] [2, 5, 0] \<and>
   Check go_version [(GreaterThanEqual, [2, 0, 0]), (LessThan, [3, 0, 0])] [2, 5, 0] \<and>
   Matcher_body go_version
        [\<lparr>constraints = [(Equal, [1, 0, 0])], handler = sendHandler ''v1''\<rparr>,
         \<lparr>constraints = [(GreaterThanEqual, [2, 0, 0]), (LessThan, [3, 0, 0])],
          handler = sendHandler ''v2''\<rparr>] NotFoundHandler (withHeader AcceptVersionHeaderKey ''2.5'')
     = [HeaderSet ''X-API-Version'' ''2.5.0'', ServeHTTP (sendHandler ''v2'')] \<and>
   distinct (map fst [(''1.0'', sendHandler ''v1''), (NotFound, sendHandler ''custom'')]) \<and>
   map_of [(''1.0'', sendHandler ''v1''), (NotFound, sendHandler ''custom'')] NotFound
     = Some (sendHandler ''custom'') \<and>
   buildConstraints go_version [(''1.0'', sendHandler ''v1''), (NotFound, sendHandler ''custom'')] =
     Inr ([\<lparr>constraints = [(Equal, [1, 0, 0])], handler = sendHandler ''v1''\<rparr>],
          sendHandler ''custom'') \<and>
   run (Matcher_body go_version [\<lparr>constraints = [(Equal, [1, 0, 0])], handler = sendHandler ''v1''\<rparr>]
          (sendHandler ''custom'') (withHeader AcceptVersionHeaderKey ''3.0''))
       \<lparr>header = Map.empty, status = None, body = []\<rparr> (withHeader AcceptVersionHeaderKey ''3.0'')
     = Some \<lparr>header = Map.empty, status = Some 200, body = ''custom''\<rparr> \<and>
   distinct (map fst [(''1.0'', sendHandler ''v1''), (NotFound, NilHandler)]) \<and>
   map_of [(''1.0'', sendHandler ''v1''), (NotFound, NilHandler)] NotFound = Some NilHandler \<and>
   buildConstraints go_version [(''1.0'', sendHandler ''v1''), (NotFound, NilHandler)] =
     Inr ([\<lparr>constraints = [(Equal, [1, 0, 0])], handler = sendHandler ''v1''\<rparr>], NotFoundHandler)"
proof -
  let ?chs = "[\<lparr>constraints = [(Equal, [1, 0, 0])], handler = sendHandler ''v1''\<rparr>,
         \<lparr>constraints = [(GreaterThanEqual, [2, 0, 0]), (LessThan, [3, 0, 0])],
          handler = sendHandler ''v2''\<rparr>]"
  let ?vs = "[(''1.0'', sendHandler ''v1''), (''>= 2, < 3'', sendHandler ''v2'')]"
  let ?m = "HandlerFunc (\<lambda>w r. run (Matcher_body go_version ?chs NotFoundHandler r) w r)"
  let ?vc = "[(''1.0'', sendHandler ''v1''), (NotFound, sendHandler ''custom'')]"
  let ?vn = "[(''1.0'', sendHandler ''v1''), (NotFound, NilHandler)]"
  let ?c1 = "[\<lparr>constraints = [(Equal, [1, 0, 0])], handler = sendHandler ''v1''\<rparr>]"
  let ?w = "\<lparr>header = Map.empty, status = None, body = []\<rparr>"
  let ?r3 = "withHeader AcceptVersionHeaderKey ''3.0''"
  have h1: "NewMatcher go_version ?vs = Inr ?m"
    by (simp add: NewMatcher_def buildConstraints_example)
  have h2: "NewVersion go_version (GetVersion ?r3) = Some [3, 0, 0]"
    by (simp add: GetVersion_withHeader go_version_def go_NewVersion_3_0)
  have h3: "\<forall>ch \<in> set ?chs. \<not> Check go_version (constraints ch) [3, 0, 0]"
    by (simp add: go_version_def go_Check_def)
  have h4: "GetVersion (withHeader AcceptVersionHeaderKey ''2.5'') \<noteq> NotFound"
    by (simp add: GetVersion_withHeader NotFound_neq)
  have h5: "NewVersion go_version (GetVersion (withHeader AcceptVersionHeaderKey ''2.5'')) = Some [2, 5, 0]"
    by (simp add: GetVersion_withHeader go_version_def go_NewVersion_2_5)
  have h6: "\<not> Check go_version [(Equal, [1, 0, 0])] [2, 5, 0]"
    by (simp add: go_version_def go_Check_def)
  have h7: "Check go_version [(GreaterThanEqual, [2, 0, 0]), (LessThan, [3, 0, 0])] [2, 5, 0]"
    by (simp add: go_version_def go_Check_def)
  have s: "Version_String go_version [2, 5, 0] = ''2.5.0''"
    by (simp add: go_version_def go_String_values)
  have c1: "Matcher_body go_version ?chs NotFoundHandler ?r3 = [ServeHTTP NotFoundHandler]"
    using Matcher_dispatch [of go_version ?vs ?m ?chs NotFoundHandler ?r3] h2 h3 by blast
  have c2: "Matcher_body go_version ?chs NotFoundHandler (withHeader AcceptVersionHeaderKey ''2.5'')
      = [HeaderSet ''X-API-Version'' (Version_String go_version [2, 5, 0]),
         ServeHTTP (sendHandler ''v2'')]"
    using Matcher_dispatch [of go_version ?vs ?m ?chs NotFoundHandler
        "withHeader AcceptVersionHeaderKey ''2.5''" _ "[2, 5, 0]"
        "[\<lparr>constraints = [(Equal, [1, 0, 0])], handler = sendHandler ''v1''\<rparr>]"
        "\<lparr>constraints = [(GreaterThanEqual, [2, 0, 0]), (LessThan, [3, 0, 0])],
          handler = sendHandler ''v2''\<rparr>" "[]"] h4 h5 h6 h7
    by simp
  have d1: "distinct (map fst ?vc)" and d2: "distinct (map fst ?vn)"
    by (simp_all add: NotFound_neq)
  have m1: "map_of ?vc NotFound = Some (sendHandler ''custom'')"
    and m2: "map_of ?vn NotFound = Some NilHandler"
    by (simp_all add: NotFound_neq [symmetric])
  have b1: "buildConstraints go_version ?vc = Inr (?c1, sendHandler ''custom'')"
    by (simp add: buildConstraints_def NotFound_neq go_version_def go_NewConstraint_1_0
        sendHandler_def)
  have b2: "buildConstraints go_version ?vn = Inr (?c1, NotFoundHandler)"
    by (simp add: buildConstraints_def NotFound_neq go_version_def go_NewConstraint_1_0)
  have h3': "\<forall>ch \<in> set ?c1. \<not> Check go_version (constraints ch) [3, 0, 0]"
    by (simp add: go_version_def go_Check_def)
  have sc: "Handler_ServeHTTP (sendHandler ''custom'') ?w ?r3
      = Some \<lparr>header = Map.empty, status = Some 200, body = ''custom''\<rparr>"
    by (simp add: sendHandler_def Write_def WriteHeader_def)
  from Matcher_dispatch [of go_version ?vc _ ?c1 "sendHandler ''custom''" ?r3 ?w] h2 h3'
  have c3: "run (Matcher_body go_version ?c1 (sendHandler ''custom'') ?r3) ?w ?r3
      = Handler_ServeHTTP (sendHandler ''custom'') ?w ?r3" by blast
  from h3 have h3a: "\<not> Check go_version [(Equal, [1, 0, 0])] [3, 0, 0]"
    and h3b: "\<not> Check go_version [(GreaterThanEqual, [2, 0, 0]), (LessThan, [3, 0, 0])] [3, 0, 0]"
    by simp_all
  from h1 h2 h3a h3b h4 h5 h6 h7 c1 c2 [unfolded s] d1 m1 b1 c3 [unfolded sc] d2 m2 b2
  show ?thesis by blast
qed

lemma NotFoundHandler_response:
  "status w = None \<Longrightarrow>
   Handler_ServeHTTP NotFoundHandler w r =
     Some (w\<lparr>status := Some 501, body := body w @ ''version not found''\<rparr>)"
  by (simp add: NotFoundHandler_def WriteHeader_def Write_def StatusNotImplemented_def
      versionNotFoundText_def)

text \<open>
  The header that the matcher sets for the request \<open>1.0\<close> on the instance is
  \<open>1.0.0\<close>.
\<close>

theorem NewMatcher_example_counterexample:
  "buildConstraints go_version [(''1.0'', sendHandler ''v1''), (''>= 2, < 3'', sendHandler ''v2'')] =
     Inr ([\<lparr>constraints = [(Equal, [1, 0, 0])], handler = sendHandler ''v1''\<rparr>,
           \<lparr>constraints = [(GreaterThanEqual, [2, 0, 0]), (LessThan, [3, 0, 0])],
            handler = sendHandler ''v2''\<rparr>], NotFoundHandler) \<and>
   GetVersion (withHeader AcceptVersionHeaderKey ''1.0'') = ''1.0'' \<and>
   Matcher_body go_version
     [\<lparr>constraints = [(Equal, [1, 0, 0])], handler = sendHandler ''v1''\<rparr>,
      \<lparr>constraints = [(GreaterThanEqual, [2, 0, 0]), (LessThan, [3, 0, 0])],
       handler = sendHandler ''v2''\<rparr>] NotFoundHandler (withHeader AcceptVersionHeaderKey ''1.0'')
     = [HeaderSet ''X-API-Version'' ''1.0.0'', ServeHTTP (sendHandler ''v1'')] \<and>
   Matcher_body go_version
     [\<lparr>constraints = [(Equal, [1, 0, 0])], handler = sendHandler ''v1''\<rparr>,
      \<lparr>constraints = [(GreaterThanEqual, [2, 0, 0]), (LessThan, [3, 0, 0])],
       handler = sendHandler ''v2''\<rparr>] NotFoundHandler (withHeader AcceptVersionHeaderKey ''1.0'')
     \<noteq> [HeaderSet ''X-API-Version'' ''1.0'', ServeHTTP (sendHandler ''v1'')]"
proof -
  have g: "GetVersion (withHeader AcceptVersionHeaderKey ''1.0'') = ''1.0''"
    by (simp add: GetVersion_withHeader)
  have b: "Matcher_body go_version
     [\<lparr>constraints = [(Equal, [1, 0, 0])], handler = sendHandler ''v1''\<rparr>,
      \<lparr>constraints = [(GreaterThanEqual, [2, 0, 0]), (LessThan, [3, 0, 0])],
       handler = sendHandler ''v2''\<rparr>] NotFoundHandler (withHeader AcceptVersionHeaderKey ''1.0'')
     = [HeaderSet ''X-API-Version'' ''1.0.0'', ServeHTTP (sendHandler ''v1'')]"
    unfolding Matcher_body_def g
    by (simp add: NotFound_neq go_version_def go_NewVersion_1_0 go_Check_def go_String_def itoa_digits)
  show ?thesis unfolding b using g by (simp add: buildConstraints_example)
qed

text \<open>
  C2. The matcher built from the map of \<open>1.0\<close> to \<open>H1\<close> and \<open>>= 2, < 3\<close> to \<open>H2\<close>,
  without a fallback entry and in either order of the map, for a library on which the
  strings parse and compare as versions do: a request with the version \<open>1.0\<close> makes the
  matcher set \<open>X-API-Version\<close> to the string that the library gives for the parsed
  version and call \<open>H1\<close>; one with \<open>2.5\<close> is dispatched to \<open>H2\<close> in the same way; one
  with \<open>3.0\<close> is dispatched to the default fallback, which writes the status 501 and
  the body \<open>version not found\<close>. The header holds the library's rendering of the parsed
  version, not the string of the request: go-version renders \<open>1.0\<close> as \<open>1.0.0\<close>, as
  the first of the two theorems shows on the instance.
\<close>

theorem NewMatcher_example:
  assumes "NewConstraint L ''1.0'' = Some c1" and "NewConstraint L ''>= 2, < 3'' = Some c2"
    and "NewVersion L ''1.0'' = Some v1" and "Check L c1 v1" and "\<not> Check L c2 v1"
    and "NewVersion L ''2.5'' = Some v2" and "\<not> Check L c1 v2" and "Check L c2 v2"
    and "NewVersion L ''3.0'' = Some v3" and "\<not> Check L c1 v3" and "\<not> Check L c2 v3"
    and "versions = [(''1.0'', H1), (''>= 2, < 3'', H2)] \<or>
         versions = [(''>= 2, < 3'', H2), (''1.0'', H1)]"
  shows "\<exists>chs. buildConstraints L versions = Inr (chs, NotFoundHandler) \<and>
     (GetVersion r = ''1.0'' \<longrightarrow>
        Matcher_body L chs NotFoundHandler r =
          [HeaderSet ''X-API-Version'' (Version_String L v1), ServeHTTP H1]) \<and>
     (GetVersion r = ''2.5'' \<longrightarrow>
        Matcher_body L chs NotFoundHandler r =
          [HeaderSet ''X-API-Version'' (Version_String L v2), ServeHTTP H2]) \<and>
     (GetVersion r = ''3.0'' \<longrightarrow>
        Matcher_body L chs NotFoundHandler r = [ServeHTTP NotFoundHandler] \<and>
        (status w = None \<longrightarrow>
           run (Matcher_body L chs NotFoundHandler r) w r =
             Some (w\<lparr>status := Some 501, body := body w @ ''version not found''\<rparr>)))"
proof -
  from assms(12) show ?thesis
  proof
    assume vs: "versions = [(''1.0'', H1), (''>= 2, < 3'', H2)]"
    have b: "buildConstraints L versions =
        Inr ([\<lparr>constraints = c1, handler = H1\<rparr>, \<lparr>constraints = c2, handler = H2\<rparr>], NotFoundHandler)"
      unfolding vs using assms(1,2) by (simp add: buildConstraints_def NotFound_neq)
    show ?thesis
      unfolding b using assms(3-11)
      by (simp add: Matcher_body_def NotFound_neq NotFoundHandler_response)
  next
    assume vs: "versions = [(''>= 2, < 3'', H2), (''1.0'', H1)]"
    have b: "buildConstraints L versions =
        Inr ([\<lparr>constraints = c2, handler = H2\<rparr>, \<lparr>constraints = c1, handler = H1\<rparr>], NotFoundHandler)"
      unfolding vs using assms(1,2) by (simp add: buildConstraints_def NotFound_neq)
    show ?thesis
      unfolding b using assms(3-11)
      by (simp add: Matcher_body_def NotFound_neq NotFoundHandler_response)
  qed
qed


theorem NewMatcher_example_witness:
  "NewConstraint go_version ''1.0'' = Some [(Equal, [1, 0, 0])] \<and>
   NewConstraint go_version ''>= 2, < 3'' = Some [(GreaterThanEqual, [2, 0, 0]), (LessThan, [3, 0, 0])] \<and>
   NewVersion go_version ''1.0'' = Some [1, 0, 0] \<and>
   Check go_version [(Equal, [1, 0, 0])] [1, 0, 0] \<and>
   \<not> Check go_version [(GreaterThanEqual, [2, 0, 0]), (LessThan, [3, 0, 0])] [1, 0, 0] \<and>
   NewVersion go_version ''2.5'' = Some [2, 5, 0] \<and>
   \<not> Check go_version [(Equal, [1, 0, 0])] [2, 5, 0] \<and>
   Check go_version [(GreaterThanEqual, [2, 0, 0]), (LessThan, [3, 0, 0])] [2, 5, 0] \<and>
   NewVersion go_version ''3.0'' = Some [3, 0, 0] \<and>
   \<not> Check go_version [(Equal, [1, 0, 0])] [3, 0, 0] \<and>
   \<not> Check go_version [(GreaterThanEqual, [2, 0, 0]), (LessThan, [3, 0, 0])] [3, 0, 0] \<and>
   GetVersion (withHeader AcceptVersionHeaderKey ''2.5'') = ''2.5'' \<and>
   GetVersion (withHeader AcceptVersionHeaderKey ''3.0'') = ''3.0'' \<and>
   Matcher_body go_version
     [\<lparr>constraints = [(GreaterThanEqual, [2, 0, 0]), (LessThan, [3, 0, 0])],
       handler = sendHandler ''v2''\<rparr>,
      \<lparr>constraints = [(Equal, [1, 0, 0])], handler = sendHandler ''v1''\<rparr>]
     NotFoundHandler (withHeader AcceptVersionHeaderKey ''2.5'')
     = [HeaderSet ''X-API-Version'' ''2.5.0'', ServeHTTP (sendHandler ''v2'')] \<and>
   run (Matcher_body go_version
     [\<lparr>constraints = [(GreaterThanEqual, [2, 0, 0]), (LessThan, [3, 0, 0])],
       handler = sendHandler ''v2''\<rparr>,
      \<lparr>constraints = [(Equal, [1, 0, 0])], handler = sendHandler ''v1''\<rparr>]
     NotFoundHandler (withHeader AcceptVersionHeaderKey ''3.0''))
     \<lparr>header = Map.empty, status = None, body = []\<rparr> (withHeader AcceptVersionHeaderKey ''3.0'')
     = Some \<lparr>header = Map.empty, status = Some 501, body = ''version not found''\<rparr>"
proof -
  let ?c1 = "[(Equal, [1, 0, 0])]"
  let ?c2 = "[(GreaterThanEqual, [2, 0, 0]), (LessThan, [3, 0, 0])]"
  let ?vs = "[(''>= 2, < 3'', sendHandler ''v2''), (''1.0'', sendHandler ''v1'')]"
  let ?chs = "[\<lparr>constraints = ?c2, handler = sendHandler ''v2''\<rparr>,
      \<lparr>constraints = ?c1, handler = sendHandler ''v1''\<rparr>]"
  let ?w = "\<lparr>header = Map.empty, status = None, body = []\<rparr>"
  have h1: "NewConstraint go_version ''1.0'' = Some ?c1"
    by (simp add: go_version_def go_NewConstraint_1_0)
  have h2: "NewConstraint go_version ''>= 2, < 3'' = Some ?c2"
    by (simp add: go_version_def go_NewConstraint_range)
  have h3: "NewVersion go_version ''1.0'' = Some [1, 0, 0]"
    by (simp add: go_version_def go_NewVersion_1_0)
  have h4: "Check go_version ?c1 [1, 0, 0]" by (simp add: go_version_def go_Check_def)
  have h5: "\<not> Check go_version ?c2 [1, 0, 0]" by (simp add: go_version_def go_Check_def)
  have h6: "NewVersion go_version ''2.5'' = Some [2, 5, 0]"
    by (simp add: go_version_def go_NewVersion_2_5)
  have h7: "\<not> Check go_version ?c1 [2, 5, 0]" by (simp add: go_version_def go_Check_def)
  have h8: "Check go_version ?c2 [2, 5, 0]" by (simp add: go_version_def go_Check_def)
  have h9: "NewVersion go_version ''3.0'' = Some [3, 0, 0]"
    by (simp add: go_version_def go_NewVersion_3_0)
  have h10: "\<not> Check go_version ?c1 [3, 0, 0]" by (simp add: go_version_def go_Check_def)
  have h11: "\<not> Check go_version ?c2 [3, 0, 0]" by (simp add: go_version_def go_Check_def)
  have g2: "GetVersion (withHeader AcceptVersionHeaderKey ''2.5'') = ''2.5''"
    and g3: "GetVersion (withHeader AcceptVersionHeaderKey ''3.0'') = ''3.0''"
    by (simp_all add: GetVersion_withHeader)
  have s2: "Version_String go_version [2, 5, 0] = ''2.5.0''"
    by (simp add: go_version_def go_String_values)
  have b: "buildConstraints go_version ?vs = Inr (?chs, NotFoundHandler)"
    by (rule buildConstraints_example_rev)
  have w: "status ?w = None" by simp
  from NewMatcher_example [OF h1 h2 h3 h4 h5 h6 h7 h8 h9 h10 h11, of ?vs "sendHandler ''v1''"
      "sendHandler ''v2''" "withHeader AcceptVersionHeaderKey ''2.5''" ?w] b g2
  have c1: "Matcher_body go_version ?chs NotFoundHandler (withHeader AcceptVersionHeaderKey ''2.5'')
     = [HeaderSet ''X-API-Version'' (Version_String go_version [2, 5, 0]),
        ServeHTTP (sendHandler ''v2'')]"
    by auto
  from NewMatcher_example [OF h1 h2 h3 h4 h5 h6 h7 h8 h9 h10 h11, of ?vs "sendHandler ''v1''"
      "sendHandler ''v2''" "withHeader AcceptVersionHeaderKey ''3.0''" ?w] b g3 w
  have c2: "run (Matcher_body go_version ?chs NotFoundHandler (withHeader AcceptVersionHeaderKey ''3.0''))
      ?w (withHeader AcceptVersionHeaderKey ''3.0'')
     = Some (?w\<lparr>status := Some 501, body := body ?w @ ''version not found''\<rparr>)"
    by auto
  from h1 h2 h3 h4 h5 h6 h7 h8 h9 h10 h11 g2 g3 c1 c2 s2 show ?thesis by simp
qed

section \<open>Deprecated\<close>

lemma Deprecated_options_inactive:
  "\<not> ShouldHandle opts \<Longrightarrow>
   Deprecated_options opts = opts\<lparr>WarnMessage := WarnMessage DefaultDeprecationOptions\<rparr>"
  by (simp add: ShouldHandle_def Deprecated_options_def)

lemma Deprecated_apply:
  "Handler_ServeHTTP (Deprecated Format h opts) w r =
   Handler_ServeHTTP h (w\<lparr>header :=
        (if DeprecationInfo opts \<noteq> []
         then (\<lambda>H. Header_Set H ''X-API-Deprecation-Info'' (DeprecationInfo opts)) else (\<lambda>H. H))
        ((if \<not> IsZero (DeprecationDate opts)
          then (\<lambda>H. Header_Set H ''X-API-Deprecation-Date''
                      (Format (DeprecationDate opts) HeaderTimeFormat)) else (\<lambda>H. H))
         (Header_Set (header w) ''X-API-Warn''
            (if WarnMessage opts = [] then WarnMessage DefaultDeprecationOptions
             else WarnMessage opts)))\<rparr>) r"
  by (simp add: Deprecated_def Deprecated_body_def Deprecated_options_def split: option.splits)

text \<open>
  The zero value of \<open>DeprecationOptions\<close> is not active, and the handler that
  \<open>Deprecated\<close> returns for it still sets \<open>X-API-Warn\<close>, to the default message,
  before it calls the wrapped handler.
\<close>

theorem Deprecated_inactive_counterexample:
  "\<not> ShouldHandle \<lparr>WarnMessage = [], DeprecationDate = \<lparr>sec = 0, nsec = 0\<rparr>, DeprecationInfo = []\<rparr> \<and>
   Handler_ServeHTTP
     (Deprecated (\<lambda>t layout. layout) (sendHandler ''v1'')
        \<lparr>WarnMessage = [], DeprecationDate = \<lparr>sec = 0, nsec = 0\<rparr>, DeprecationInfo = []\<rparr>)
     \<lparr>header = Map.empty, status = None, body = []\<rparr> (withHeader AcceptVersionHeaderKey ''1.0'')
   = Some \<lparr>header = [''X-API-Warn'' \<mapsto> [''WARNING! You are using a deprecated version of this API.'']],
           status = Some 200, body = ''v1''\<rparr>"
  by (simp add: ShouldHandle_def IsZero_def Deprecated_def Deprecated_options_def
      Deprecated_body_def DefaultDeprecationOptions_def sendHandler_def Header_Set_def
      Write_def WriteHeader_def)

text \<open>
  C8. A \<open>DeprecationOptions\<close> value is active, that is \<open>ShouldHandle\<close> holds of it,
  exactly when one of its three fields is set. \<open>Deprecated\<close> does not consult
  \<open>ShouldHandle\<close>: it replaces an empty \<open>WarnMessage\<close> by the default one, so that the
  handler it returns for a value that is not active sets \<open>X-API-Warn\<close> to the default
  message, sets neither \<open>X-API-Deprecation-Date\<close> nor \<open>X-API-Deprecation-Info\<close>, and
  calls the wrapped handler. It is \<open>Handle\<close> of a group that consults \<open>ShouldHandle\<close>:
  on a group whose stored options are not active it registers the handler as it was
  given, without a wrapper, so that no header is emitted.
\<close>

theorem Deprecated_inactive:
  "ShouldHandle opts =
     (WarnMessage opts \<noteq> [] \<or> \<not> IsZero (DeprecationDate opts) \<or> DeprecationInfo opts \<noteq> []) \<and>
   (\<not> ShouldHandle opts \<longrightarrow>
      Deprecated Format h opts =
        HandlerFunc (\<lambda>w r.
          run [HeaderSet ''X-API-Warn'' ''WARNING! You are using a deprecated version of this API.'',
               ServeHTTP h] w r) \<and>
      Handler_ServeHTTP (Deprecated Format h opts) w r =
        Handler_ServeHTTP h (w\<lparr>header := Header_Set (header w) ''X-API-Warn''
               ''WARNING! You are using a deprecated version of this API.''\<rparr>) r) \<and>
   (\<not> ShouldHandle (deprecation g) \<and> map_of (routes g) path = None \<longrightarrow>
      maps (snd (Group_Handle Format path h (g, S))) (fresh S) = [(version g, h)])"
proof -
  have 1: "ShouldHandle opts =
     (WarnMessage opts \<noteq> [] \<or> \<not> IsZero (DeprecationDate opts) \<or> DeprecationInfo opts \<noteq> [])"
    by (simp add: ShouldHandle_def)
  have 2: "Deprecated Format h opts =
        HandlerFunc (\<lambda>w r.
          run [HeaderSet ''X-API-Warn'' ''WARNING! You are using a deprecated version of this API.'',
               ServeHTTP h] w r)" if "\<not> ShouldHandle opts"
    using that
    by (simp add: Deprecated_def Deprecated_options_inactive Deprecated_body_def
        DefaultDeprecationOptions_def ShouldHandle_def)
  have 3: "Handler_ServeHTTP (Deprecated Format h opts) w r =
        Handler_ServeHTTP h (w\<lparr>header := Header_Set (header w) ''X-API-Warn''
               ''WARNING! You are using a deprecated version of this API.''\<rparr>) r"
    if "\<not> ShouldHandle opts"
    unfolding 2 [OF that] by (simp split: option.splits)
  have 4: "maps (snd (Group_Handle Format path h (g, S))) (fresh S) = [(version g, h)]"
    if "\<not> ShouldHandle (deprecation g)" "map_of (routes g) path = None"
    using that by (simp add: Group_Handle_def addVRoute_def)
  from 1 2 3 4 show ?thesis by blast
qed

theorem Deprecated_inactive_witness:
  "\<not> ShouldHandle \<lparr>WarnMessage = [], DeprecationDate = \<lparr>sec = 0, nsec = 0\<rparr>, DeprecationInfo = []\<rparr> \<and>
   Handler_ServeHTTP
     (Deprecated (\<lambda>t layout. layout) (sendHandler ''v1'')
        \<lparr>WarnMessage = [], DeprecationDate = \<lparr>sec = 0, nsec = 0\<rparr>, DeprecationInfo = []\<rparr>)
     \<lparr>header = Map.empty, status = None, body = []\<rparr> (withHeader AcceptVersionHeaderKey ''1.0'')
   = Handler_ServeHTTP (sendHandler ''v1'')
       \<lparr>header = [''X-API-Warn'' \<mapsto> [''WARNING! You are using a deprecated version of this API.'']],
        status = None, body = []\<rparr> (withHeader AcceptVersionHeaderKey ''1.0'') \<and>
   \<not> ShouldHandle (deprecation (NewGroup ''1.0'')) \<and>
   map_of (routes (NewGroup ''1.0'')) ''/'' = None \<and>
   maps (snd (Group_Handle (\<lambda>t layout. layout) ''/'' (sendHandler ''v1'')
               (NewGroup ''1.0'', \<lparr>maps = (\<lambda>a. []), fresh = 0\<rparr>))) 0
     = [(''1.0'', sendHandler ''v1'')]"
proof -
  let ?z = "\<lparr>WarnMessage = [], DeprecationDate = \<lparr>sec = 0, nsec = 0\<rparr>, DeprecationInfo = []\<rparr>"
  let ?S = "\<lparr>maps = (\<lambda>a. []), fresh = 0\<rparr>"
  have h1: "\<not> ShouldHandle ?z" by (simp add: ShouldHandle_def IsZero_def)
  have h2: "\<not> ShouldHandle (deprecation (NewGroup ''1.0''))"
    by (simp add: NewGroup_def ShouldHandle_def IsZero_def)
  have h3: "map_of (routes (NewGroup ''1.0'')) ''/'' = None" by (simp add: NewGroup_def)
  have v: "version (NewGroup ''1.0'') = ''1.0''" by (simp add: NewGroup_def)
  have f: "fresh ?S = 0" by simp
  from Deprecated_inactive [of ?z "\<lambda>t layout. layout" "sendHandler ''v1''"
      "\<lparr>header = Map.empty, status = None, body = []\<rparr>" "withHeader AcceptVersionHeaderKey ''1.0''"
      "NewGroup ''1.0''" "''/''" ?S] h1 h2 h3 v f
  show ?thesis by (simp add: Header_Set_def split: option.splits)
qed

section \<open>Group\<close>

lemma Group_Deprecated_loop_fresh [simp]:
  "fresh (Group_Deprecated_loop Format v opts rs S) = fresh S"
  by (induction rs arbitrary: S) auto

lemma Group_Deprecated_loop_append:
  "Group_Deprecated_loop Format v opts (xs @ ys) S =
   Group_Deprecated_loop Format v opts ys (Group_Deprecated_loop Format v opts xs S)"
  by (induction xs arbitrary: S) auto

lemma Group_Deprecated_loop_frame:
  "a \<notin> snd ` set rs \<Longrightarrow>
   Group_Deprecated_loop Format v opts rs (S\<lparr>maps := (maps S)(a := m), fresh := k\<rparr>) =
   (Group_Deprecated_loop Format v opts rs S)
     \<lparr>maps := (maps (Group_Deprecated_loop Format v opts rs S))(a := m), fresh := k\<rparr>"
proof (induction rs arbitrary: S)
  case Nil
  then show ?case by simp
next
  case (Cons x rs)
  obtain p b where x: "x = (p, b)" by (cases x)
  from Cons.prems x have ne: "b \<noteq> a" and notin: "a \<notin> snd ` set rs" by auto
  define m' where "m' = Map_set (maps S b) v (Deprecated Format (Map_get (maps S b) v) opts)"
  define Sb where "Sb = S\<lparr>maps := (maps S)(b := m')\<rparr>"
  have tw: "((maps S)(a := m))(b := m') = ((maps S)(b := m'))(a := m)"
    using ne by (auto simp: fun_eq_iff)
  have "Group_Deprecated_loop Format v opts (x # rs) (S\<lparr>maps := (maps S)(a := m), fresh := k\<rparr>) =
        Group_Deprecated_loop Format v opts rs
          (S\<lparr>maps := ((maps S)(a := m))(b := m'), fresh := k\<rparr>)"
    unfolding x m'_def using ne by (cases S) simp
  also have "S\<lparr>maps := ((maps S)(a := m))(b := m'), fresh := k\<rparr> =
             Sb\<lparr>maps := (maps Sb)(a := m), fresh := k\<rparr>"
    unfolding Sb_def tw by (cases S) simp
  also have "Group_Deprecated_loop Format v opts rs (Sb\<lparr>maps := (maps Sb)(a := m), fresh := k\<rparr>) =
      (Group_Deprecated_loop Format v opts rs Sb)
        \<lparr>maps := (maps (Group_Deprecated_loop Format v opts rs Sb))(a := m), fresh := k\<rparr>"
    by (rule Cons.IH [OF notin])
  also have "Group_Deprecated_loop Format v opts rs Sb =
             Group_Deprecated_loop Format v opts (x # rs) S"
    unfolding x Sb_def m'_def by simp
  finally show ?case .
qed

lemma routes_Group_Handle:
  "routes (fst (Group_Handle Format path h (g, S))) =
   (if map_of (routes g) path = None then routes g @ [(path, fresh S)] else routes g)"
  by (auto simp: Group_Handle_def addVRoute_def split: option.splits)

lemma Group_Deprecated_loop_keeps:
  assumes step: "\<And>m h. P m \<Longrightarrow> P (Map_set m v h)"
  shows "P (maps S x) \<Longrightarrow> P (maps (Group_Deprecated_loop Format v opts rs S) x)"
proof (induction rs arbitrary: S)
  case Nil
  then show ?case by simp
next
  case (Cons y rs)
  obtain p b where y: "y = (p, b)" by (cases y)
  let ?S = "S\<lparr>maps := (maps S)
      (b := Map_set (maps S b) v (Deprecated Format (Map_get (maps S b) v) opts))\<rparr>"
  from Cons.prems step have "P (maps ?S x)" by auto
  from Cons.IH [OF this] show ?case unfolding y by simp
qed

lemma single_Map_set: "\<exists>h'. m = [(v, h')] \<Longrightarrow> \<exists>h'. Map_set m v h = [(v, h')]"
  by (auto simp: Map_set_def)

text \<open>
  \<open>RegisterGroups\<close> writes into the \<open>Map\<close> that the group holds for a path: after one
  \<open>Handle\<close> and a call of \<open>RegisterGroups\<close> with a not found handler, the \<open>Map\<close> of
  the path holds two handlers, the registered one and the not found handler.
\<close>

theorem Group_Handle_second_noop_counterexample:
  "routes (fst (Group_Handle (\<lambda>t layout. layout) ''/'' (sendHandler ''v1'')
      (NewGroup ''1.0'', \<lparr>maps = (\<lambda>a. []), fresh = 0\<rparr>))) = [(''/'', 0)] \<and>
   maps (snd (Group_Handle (\<lambda>t layout. layout) ''/'' (sendHandler ''v1'')
      (NewGroup ''1.0'', \<lparr>maps = (\<lambda>a. []), fresh = 0\<rparr>))) 0 = [(''1.0'', sendHandler ''v1'')] \<and>
   (case RegisterGroups go_version None (sendHandler ''nf'')
      [fst (Group_Handle (\<lambda>t layout. layout) ''/'' (sendHandler ''v1'')
         (NewGroup ''1.0'', \<lparr>maps = (\<lambda>a. []), fresh = 0\<rparr>))]
      (snd (Group_Handle (\<lambda>t layout. layout) ''/'' (sendHandler ''v1'')
         (NewGroup ''1.0'', \<lparr>maps = (\<lambda>a. []), fresh = 0\<rparr>))) of
      Inl e \<Rightarrow> False
    | Inr (mux, rts, S') \<Rightarrow>
        maps S' 0 = [(''1.0'', sendHandler ''v1''), (NotFound, sendHandler ''nf'')])"
  by (simp add: Group_Handle_def addVRoute_def NewGroup_def ShouldHandle_def IsZero_def
     RegisterGroups_def Map_set_def Map_get_def NewMatcher_def buildConstraints_def
     NotFound_neq NotFound_neq [symmetric] go_version_def go_NewConstraint_1_0 sendHandler_def)

text \<open>
  C9. Within a group, \<open>Handle\<close> for a path that the group has registered changes neither
  the group nor any \<open>Map\<close>: a second \<open>Handle\<close> for the same path leaves what the first
  one gave, the \<open>Map\<close> of the path holding the first handler alone (wrapped by
  \<open>Deprecated\<close> when the options of the group are active) under the version of the
  group. \<open>Handle\<close> and \<open>Deprecated\<close> keep the version of the group, keep its paths
  pairwise distinct, and keep every \<open>Map\<close> of the group a \<open>Map\<close> of one entry, under
  the version of the group; a new group has no path. So a group holds one handler for a
  path as long as \<open>Handle\<close> and \<open>Deprecated\<close> alone act on its \<open>Map\<close>s;
  \<open>RegisterGroups\<close> adds entries to them, as the theorem before this one shows.
\<close>

theorem Group_Handle_second_noop:
  "(map_of (routes g) path \<noteq> None \<longrightarrow> Group_Handle Format path h (g, S) = (g, S)) \<and>
   Group_Handle Format path h2 (Group_Handle Format path h1 (g, S)) =
     Group_Handle Format path h1 (g, S) \<and>
   (map_of (routes g) path = None \<longrightarrow>
      map_of (routes (fst (Group_Handle Format path h2 (Group_Handle Format path h1 (g, S))))) path
        = Some (fresh S) \<and>
      maps (snd (Group_Handle Format path h2 (Group_Handle Format path h1 (g, S)))) (fresh S)
        = [(version g,
            if ShouldHandle (deprecation g) then Deprecated Format h1 (deprecation g) else h1)]) \<and>
   version (fst (Group_Handle Format path h (g, S))) = version g \<and>
   version (fst (Group_Deprecated Format opts (g, S))) = version g \<and>
   (distinct (map fst (routes g)) \<longrightarrow>
      distinct (map fst (routes (fst (Group_Handle Format path h (g, S))))) \<and>
      distinct (map fst (routes (fst (Group_Deprecated Format opts (g, S)))))) \<and>
   ((\<forall>a \<in> snd ` set (routes g). \<exists>h'. maps S a = [(version g, h')]) \<longrightarrow>
      (\<forall>a \<in> snd ` set (routes (fst (Group_Handle Format path h (g, S)))).
         \<exists>h'. maps (snd (Group_Handle Format path h (g, S))) a = [(version g, h')]) \<and>
      (\<forall>a \<in> snd ` set (routes (fst (Group_Deprecated Format opts (g, S)))).
         \<exists>h'. maps (snd (Group_Deprecated Format opts (g, S))) a = [(version g, h')])) \<and>
   routes (NewGroup v) = []"
proof -
  have 1: "Group_Handle Format path h (g, S) = (g, S)" if "map_of (routes g) path \<noteq> None" for h g S
    using that by (auto simp: Group_Handle_def addVRoute_def)
  have r: "map_of (routes (fst (Group_Handle Format path h1 (g, S)))) path \<noteq> None"
    by (cases "map_of (routes g) path") (simp_all add: routes_Group_Handle map_add_def)
  have 2: "Group_Handle Format path h2 (Group_Handle Format path h1 (g, S)) =
     Group_Handle Format path h1 (g, S)"
    using 1 [OF r, of h2 "snd (Group_Handle Format path h1 (g, S))"] by simp
  have 3: "distinct (map fst (routes (fst (Group_Handle Format path h (g, S)))))"
    if "distinct (map fst (routes g))"
    using that by (auto simp: routes_Group_Handle map_of_eq_None_iff)
  have 4: "distinct (map fst (routes (fst (Group_Deprecated Format opts (g, S)))))"
    if "distinct (map fst (routes g))"
    using that by (simp add: Group_Deprecated_def)
  have 5: "routes (NewGroup v) = []" by (simp add: NewGroup_def)
  have 6: "map_of (routes (fst (Group_Handle Format path h1 (g, S)))) path = Some (fresh S) \<and>
      maps (snd (Group_Handle Format path h1 (g, S))) (fresh S)
        = [(version g,
            if ShouldHandle (deprecation g) then Deprecated Format h1 (deprecation g) else h1)]"
    if "map_of (routes g) path = None"
    using that by (simp add: Group_Handle_def addVRoute_def map_add_def)
  have 7: "version (fst (Group_Handle Format path h (g, S))) = version g"
    by (simp add: Group_Handle_def addVRoute_def split: option.splits)
  have 8: "version (fst (Group_Deprecated Format opts (g, S))) = version g"
    by (simp add: Group_Deprecated_def)
  have 9: "\<forall>a \<in> snd ` set (routes (fst (Group_Handle Format path h (g, S)))).
         \<exists>h'. maps (snd (Group_Handle Format path h (g, S))) a = [(version g, h')]"
    if "\<forall>a \<in> snd ` set (routes g). \<exists>h'. maps S a = [(version g, h')]"
  proof (cases "map_of (routes g) path")
    case None
    with that show ?thesis by (auto simp: Group_Handle_def addVRoute_def)
  next
    case (Some b)
    with that show ?thesis by (simp add: Group_Handle_def addVRoute_def)
  qed
  have 10: "\<forall>a \<in> snd ` set (routes (fst (Group_Deprecated Format opts (g, S)))).
         \<exists>h'. maps (snd (Group_Deprecated Format opts (g, S))) a = [(version g, h')]"
    if inv: "\<forall>a \<in> snd ` set (routes g). \<exists>h'. maps S a = [(version g, h')]"
  proof
    fix a assume "a \<in> snd ` set (routes (fst (Group_Deprecated Format opts (g, S))))"
    then have "a \<in> snd ` set (routes g)" by (simp add: Group_Deprecated_def)
    with inv have "\<exists>h'. maps S a = [(version g, h')]" by blast
    then have "\<exists>h'. maps (Group_Deprecated_loop Format (version g) opts (routes g) S) a
        = [(version g, h')]"
      by (rule Group_Deprecated_loop_keeps [where P = "\<lambda>m. \<exists>h'. m = [(version g, h')]", rotated])
         (rule single_Map_set)
    then show "\<exists>h'. maps (snd (Group_Deprecated Format opts (g, S))) a = [(version g, h')]"
      by (simp add: Group_Deprecated_def)
  qed
  from 1 3 4 5 6 7 8 9 10 show ?thesis unfolding 2 by blast
qed

theorem Group_Handle_second_noop_witness:
  "map_of (routes (NewGroup ''1.0'')) ''/'' = None \<and>
   distinct (map fst (routes (NewGroup ''1.0''))) \<and>
   snd ` set (routes (NewGroup ''1.0'')) = {} \<and>
   Group_Handle (\<lambda>t layout. layout) ''/'' (sendHandler ''second'')
     (Group_Handle (\<lambda>t layout. layout) ''/'' (sendHandler ''first'')
        (NewGroup ''1.0'', \<lparr>maps = (\<lambda>a. []), fresh = 0\<rparr>)) =
   Group_Handle (\<lambda>t layout. layout) ''/'' (sendHandler ''first'')
     (NewGroup ''1.0'', \<lparr>maps = (\<lambda>a. []), fresh = 0\<rparr>) \<and>
   routes (fst (Group_Handle (\<lambda>t layout. layout) ''/'' (sendHandler ''second'')
     (Group_Handle (\<lambda>t layout. layout) ''/'' (sendHandler ''first'')
        (NewGroup ''1.0'', \<lparr>maps = (\<lambda>a. []), fresh = 0\<rparr>)))) = [(''/'', 0)] \<and>
   maps (snd (Group_Handle (\<lambda>t layout. layout) ''/'' (sendHandler ''second'')
     (Group_Handle (\<lambda>t layout. layout) ''/'' (sendHandler ''first'')
        (NewGroup ''1.0'', \<lparr>maps = (\<lambda>a. []), fresh = 0\<rparr>)))) 0
     = [(''1.0'', sendHandler ''first'')] \<and>
   maps (snd (Group_Deprecated (\<lambda>t layout. layout) DefaultDeprecationOptions
     (Group_Handle (\<lambda>t layout. layout) ''/'' (sendHandler ''first'')
        (NewGroup ''1.0'', \<lparr>maps = (\<lambda>a. []), fresh = 0\<rparr>)))) 0
     = [(''1.0'', Deprecated (\<lambda>t layout. layout) (sendHandler ''first'')
                    DefaultDeprecationOptions)]"
proof -
  let ?S = "\<lparr>maps = (\<lambda>a. []), fresh = 0\<rparr>"
  let ?F = "\<lambda>(t::Time) (layout::string). layout"
  have h1: "map_of (routes (NewGroup ''1.0'')) ''/'' = None" by (simp add: NewGroup_def)
  have h2: "distinct (map fst (routes (NewGroup ''1.0'')))" by (simp add: NewGroup_def)
  have h3: "\<not> ShouldHandle (deprecation (NewGroup ''1.0''))"
    by (simp add: NewGroup_def ShouldHandle_def IsZero_def)
  have h4: "snd ` set (routes (NewGroup ''1.0'')) = {}" by (simp add: NewGroup_def)
  have v: "version (NewGroup ''1.0'') = ''1.0''" by (simp add: NewGroup_def)
  have rt: "routes (fst (Group_Handle ?F ''/'' (sendHandler ''first'') (NewGroup ''1.0'', ?S)))
      = [(''/'', 0)]"
    by (simp add: routes_Group_Handle NewGroup_def)
  note T = Group_Handle_second_noop [where g = "NewGroup ''1.0''" and path = "''/''" and Format = ?F
      and h = "sendHandler ''first''" and S = ?S and ?h2.0 = "sendHandler ''second''"
      and ?h1.0 = "sendHandler ''first''" and opts = DefaultDeprecationOptions and v = "''1.0''"]
  from T have e: "Group_Handle ?F ''/'' (sendHandler ''second'')
       (Group_Handle ?F ''/'' (sendHandler ''first'') (NewGroup ''1.0'', ?S)) =
     Group_Handle ?F ''/'' (sendHandler ''first'') (NewGroup ''1.0'', ?S)" by blast
  from T h1 have "maps (snd (Group_Handle ?F ''/'' (sendHandler ''second'')
       (Group_Handle ?F ''/'' (sendHandler ''first'') (NewGroup ''1.0'', ?S)))) (fresh ?S)
       = [(version (NewGroup ''1.0''),
           if ShouldHandle (deprecation (NewGroup ''1.0''))
           then Deprecated ?F (sendHandler ''first'') (deprecation (NewGroup ''1.0''))
           else sendHandler ''first'')]" by blast
  with h3 v have m: "maps (snd (Group_Handle ?F ''/'' (sendHandler ''second'')
       (Group_Handle ?F ''/'' (sendHandler ''first'') (NewGroup ''1.0'', ?S)))) 0
       = [(''1.0'', sendHandler ''first'')]" by simp
  from rt have rt': "routes (fst (Group_Handle ?F ''/'' (sendHandler ''second'')
       (Group_Handle ?F ''/'' (sendHandler ''first'') (NewGroup ''1.0'', ?S)))) = [(''/'', 0)]"
    unfolding e .
  have d: "maps (snd (Group_Deprecated ?F DefaultDeprecationOptions
       (Group_Handle ?F ''/'' (sendHandler ''first'') (NewGroup ''1.0'', ?S)))) 0
     = [(''1.0'', Deprecated ?F (sendHandler ''first'') DefaultDeprecationOptions)]"
    by (simp add: Group_Deprecated_def Group_Handle_def addVRoute_def NewGroup_def
        ShouldHandle_def IsZero_def Map_set_def Map_get_def)
  from h1 h2 h4 e rt' m d show ?thesis by blast
qed

text \<open>
  C7. On a new group, with the zero value of the options, the two orders differ. After
  \<open>Deprecated\<close> then \<open>Handle\<close> the handler registered for the path answers without any
  deprecation header: \<open>Handle\<close> wraps only when the stored options are active. After
  \<open>Handle\<close> then \<open>Deprecated\<close> it answers with \<open>X-API-Warn\<close> set to the default
  message.
\<close>

theorem Group_Deprecated_zero_options:
  "\<not> ShouldHandle \<lparr>WarnMessage = [], DeprecationDate = \<lparr>sec = 0, nsec = 0\<rparr>, DeprecationInfo = []\<rparr> \<and>
   Handler_ServeHTTP (Map_get (maps (snd
      (Group_Handle (\<lambda>t layout. layout) ''/'' (sendHandler ''v1'')
        (Group_Deprecated (\<lambda>t layout. layout)
           \<lparr>WarnMessage = [], DeprecationDate = \<lparr>sec = 0, nsec = 0\<rparr>, DeprecationInfo = []\<rparr>
           (NewGroup ''1.0'', \<lparr>maps = (\<lambda>a. []), fresh = 0\<rparr>)))) 0) ''1.0'')
     \<lparr>header = Map.empty, status = None, body = []\<rparr> (withHeader AcceptVersionHeaderKey ''1.0'')
   = Some \<lparr>header = Map.empty, status = Some 200, body = ''v1''\<rparr> \<and>
   Handler_ServeHTTP (Map_get (maps (snd
      (Group_Deprecated (\<lambda>t layout. layout)
         \<lparr>WarnMessage = [], DeprecationDate = \<lparr>sec = 0, nsec = 0\<rparr>, DeprecationInfo = []\<rparr>
         (Group_Handle (\<lambda>t layout. layout) ''/'' (sendHandler ''v1'')
            (NewGroup ''1.0'', \<lparr>maps = (\<lambda>a. []), fresh = 0\<rparr>)))) 0) ''1.0'')
     \<lparr>header = Map.empty, status = None, body = []\<rparr> (withHeader AcceptVersionHeaderKey ''1.0'')
   = Some \<lparr>header = [''X-API-Warn'' \<mapsto> [''WARNING! You are using a deprecated version of this API.'']],
           status = Some 200, body = ''v1''\<rparr>"
  by (simp add: ShouldHandle_def IsZero_def Group_Handle_def addVRoute_def Group_Deprecated_def
      NewGroup_def Map_get_def Map_set_def Deprecated_def Deprecated_options_def
      Deprecated_body_def DefaultDeprecationOptions_def sendHandler_def Header_Set_def
      Write_def WriteHeader_def)

theorem Group_Deprecated_zero_options_witness:
  "Handler_ServeHTTP (Map_get (maps (snd
      (Group_Handle (\<lambda>t layout. layout) ''/'' (sendHandler ''v1'')
        (Group_Deprecated (\<lambda>t layout. layout)
           \<lparr>WarnMessage = [], DeprecationDate = \<lparr>sec = 0, nsec = 0\<rparr>, DeprecationInfo = []\<rparr>
           (NewGroup ''1.0'', \<lparr>maps = (\<lambda>a. []), fresh = 0\<rparr>)))) 0) ''1.0'')
     \<lparr>header = Map.empty, status = None, body = []\<rparr> (withHeader AcceptVersionHeaderKey ''1.0'')
   \<noteq>
   Handler_ServeHTTP (Map_get (maps (snd
      (Group_Deprecated (\<lambda>t layout. layout)
         \<lparr>WarnMessage = [], DeprecationDate = \<lparr>sec = 0, nsec = 0\<rparr>, DeprecationInfo = []\<rparr>
         (Group_Handle (\<lambda>t layout. layout) ''/'' (sendHandler ''v1'')
            (NewGroup ''1.0'', \<lparr>maps = (\<lambda>a. []), fresh = 0\<rparr>)))) 0) ''1.0'')
     \<lparr>header = Map.empty, status = None, body = []\<rparr> (withHeader AcceptVersionHeaderKey ''1.0'')"
proof -
  note T = Group_Deprecated_zero_options
  from T have a: "Handler_ServeHTTP (Map_get (maps (snd
      (Group_Handle (\<lambda>t layout. layout) ''/'' (sendHandler ''v1'')
        (Group_Deprecated (\<lambda>t layout. layout)
           \<lparr>WarnMessage = [], DeprecationDate = \<lparr>sec = 0, nsec = 0\<rparr>, DeprecationInfo = []\<rparr>
           (NewGroup ''1.0'', \<lparr>maps = (\<lambda>a. []), fresh = 0\<rparr>)))) 0) ''1.0'')
     \<lparr>header = Map.empty, status = None, body = []\<rparr> (withHeader AcceptVersionHeaderKey ''1.0'')
     = Some \<lparr>header = Map.empty, status = Some 200, body = ''v1''\<rparr>" by blast
  from T have b: "Handler_ServeHTTP (Map_get (maps (snd
      (Group_Deprecated (\<lambda>t layout. layout)
         \<lparr>WarnMessage = [], DeprecationDate = \<lparr>sec = 0, nsec = 0\<rparr>, DeprecationInfo = []\<rparr>
         (Group_Handle (\<lambda>t layout. layout) ''/'' (sendHandler ''v1'')
            (NewGroup ''1.0'', \<lparr>maps = (\<lambda>a. []), fresh = 0\<rparr>)))) 0) ''1.0'')
     \<lparr>header = Map.empty, status = None, body = []\<rparr> (withHeader AcceptVersionHeaderKey ''1.0'')
     = Some \<lparr>header = [''X-API-Warn'' \<mapsto> [''WARNING! You are using a deprecated version of this API.'']],
           status = Some 200, body = ''v1''\<rparr>" by blast
  have "(Map.empty :: header) ''X-API-Warn'' \<noteq>
      [''X-API-Warn'' \<mapsto> [''WARNING! You are using a deprecated version of this API.'']]
        ''X-API-Warn''"
    by simp
  then have "(Map.empty :: header) \<noteq>
      [''X-API-Warn'' \<mapsto> [''WARNING! You are using a deprecated version of this API.'']]"
    by metis
  then show ?thesis unfolding a b by simp
qed

text \<open>
  With options that are active, on a group whose stored options are not active (as those
  of a new group) and whose \<open>Map\<close>s are allocated, the two orders give the same group and
  the same \<open>Map\<close>s, and the handler of a new path is the one wrapped by \<open>Deprecated\<close>.
\<close>

lemma Group_Deprecated_order_active:
  assumes "\<not> ShouldHandle (deprecation g)" and "ShouldHandle opts"
    and "\<forall>a \<in> snd ` set (routes g). a < fresh S"
  shows "Group_Handle Format path h (Group_Deprecated Format opts (g, S)) =
         Group_Deprecated Format opts (Group_Handle Format path h (g, S)) \<and>
         (map_of (routes g) path = None \<longrightarrow>
            map_of (routes (fst (Group_Deprecated Format opts (Group_Handle Format path h (g, S))))) path
              = Some (fresh S) \<and>
            maps (snd (Group_Deprecated Format opts (Group_Handle Format path h (g, S)))) (fresh S)
              = [(version g, Deprecated Format h opts)]) \<and>
         Handler_ServeHTTP (Deprecated Format h opts) w r =
           Handler_ServeHTTP h (w\<lparr>header :=
                (if DeprecationInfo opts \<noteq> []
                 then (\<lambda>H. Header_Set H ''X-API-Deprecation-Info'' (DeprecationInfo opts))
                 else (\<lambda>H. H))
                ((if \<not> IsZero (DeprecationDate opts)
                  then (\<lambda>H. Header_Set H ''X-API-Deprecation-Date''
                              (Format (DeprecationDate opts) HeaderTimeFormat))
                  else (\<lambda>H. H))
                 (Header_Set (header w) ''X-API-Warn''
                    (if WarnMessage opts = [] then WarnMessage DefaultDeprecationOptions
                     else WarnMessage opts)))\<rparr>) r"
proof (cases "map_of (routes g) path")
  case (Some a)
  then show ?thesis
    by (simp add: Group_Handle_def addVRoute_def Group_Deprecated_def Deprecated_apply)
next
  case None
  let ?n = "fresh S"
  let ?D = "Group_Deprecated_loop Format (version g) opts"
  from assms(3) have notin: "?n \<notin> snd ` set (routes g)" by auto
  have L: "Group_Handle Format path h (Group_Deprecated Format opts (g, S)) =
      (g\<lparr>deprecation := opts, routes := routes g @ [(path, ?n)]\<rparr>,
       (?D (routes g) S)\<lparr>maps := (maps (?D (routes g) S))
           (?n := [(version g, Deprecated Format h opts)]), fresh := Suc ?n\<rparr>)"
    using None assms(2) by (simp add: Group_Handle_def addVRoute_def Group_Deprecated_def)
  have R: "Group_Deprecated Format opts (Group_Handle Format path h (g, S)) =
      (g\<lparr>deprecation := opts, routes := routes g @ [(path, ?n)]\<rparr>,
       (?D (routes g) S)\<lparr>maps := (maps (?D (routes g) S))
           (?n := [(version g, Deprecated Format h opts)]), fresh := Suc ?n\<rparr>)"
    using None assms(1)
    by (simp add: Group_Handle_def addVRoute_def Group_Deprecated_def
        Group_Deprecated_loop_append Group_Deprecated_loop_frame [OF notin]
        Map_set_def Map_get_def)
  show ?thesis
    unfolding L R using None by (simp add: map_add_def Deprecated_apply)
qed

section \<open>RegisterGroups\<close>

subsection \<open>The merged map of paths\<close>










subsection \<open>The store\<close>













end
